theory Spec2Isabelle
  imports Complex_Main
begin

section \<open>Depth determination: depth-phase analyzer and region-depth lookup\<close>

text \<open>
  A shallow embedding of \<^verbatim>\<open>seismology/autoloc/depthphases.cpp\<close> and
  \<^verbatim>\<open>seismology/autoloc/regiondepth.cpp\<close> (with the structs of their headers).
  Member functions take the object as an explicit argument and return the updated
  object where they change it; loops are recursive functions; an exception is a value.
  Logging is left out: it changes no state of the two classes.
\<close>

subsection \<open>The C++ type double\<close>

text \<open>
  A \<^verbatim>\<open>double\<close> is an IEEE 754 binary64 value: NaN, an infinity, or a finite value,
  the real number it denotes. The finite values of the format are the set \<open>binary64\<close>:
  the numbers \<open>m * 2 ^ e\<close> with \<open>\<bar>m\<bar> < 2 ^ 53\<close> and \<open>-1074 \<le> e \<le> 971\<close>, the
  exponent written as \<open>k - 1074\<close> with a natural number \<open>k\<close>. The type admits every
  real under \<open>Fin\<close>; a statement that needs an input to be a value of the format says
  so. The sign of zero is not modelled: the code compares zeros, takes the square
  root of one, and divides only after a test that the divisor is not zero.
\<close>

datatype double = NaN | PInf | NInf | Fin real

definition binary64 :: "real set" where
  "binary64 = {of_int m * 2 ^ k / 2 ^ 1074 | (m::int) (k::nat). \<bar>m\<bar> < 2 ^ 53 \<and> k \<le> 2045}"

text \<open>
  Every arithmetic operation computes the exact result and rounds it once, to the
  nearest value of the format, a tie going to the value with the even significand
  (the default rounding of IEEE 754, for an expression evaluated in double precision
  and not contracted). \<open>round_down\<close> and \<open>round_up\<close> are the neighbours of a real
  among the values of the format and \<open>2 ^ 1024\<close>, which stands for the infinity: a
  result that rounds to it, or lies beyond it, is infinite. Two neighbours differ by
  one unit in the last place of the lower one, so that the lower one has the even
  significand when it is an even multiple of the difference.
\<close>

definition grid64 :: "real set" where
  "grid64 = insert (2 ^ 1024) (insert (- (2 ^ 1024)) binary64)"

definition round_down :: "real \<Rightarrow> real" where
  "round_down x = Max {g \<in> grid64. g \<le> x}"

definition round_up :: "real \<Rightarrow> real" where
  "round_up x = Min {g \<in> grid64. x \<le> g}"

definition nearest_even :: "real \<Rightarrow> real" where
  "nearest_even x =
     (let d = round_down x; u = round_up x in
      if x - d < u - x then d
      else if u - x < x - d then u
      else if d = u \<or> even \<lfloor>d / (u - d)\<rfloor> then d
      else u)"

definition round_double :: "real \<Rightarrow> double" where
  "round_double x =
     (if 2 ^ 1024 \<le> x then PInf
      else if x \<le> - (2 ^ 1024) then NInf
      else
        (let r = nearest_even x in
         if r = 2 ^ 1024 then PInf
         else if r = - (2 ^ 1024) then NInf
         else Fin r))"

text \<open>
  The operators \<open>+\<close>, \<open>-\<close>, \<open>*\<close>, \<open>/\<close>, \<open><\<close> and \<open>\<le>\<close> at type \<open>double\<close>.
  NaN propagates through the arithmetic and makes every comparison false; the
  infinities follow IEEE 754 (\<open>\<infinity> - \<infinity>\<close>, \<open>0 * \<infinity>\<close> and \<open>\<infinity> / \<infinity>\<close> are NaN).
  The C++ \<^verbatim>\<open>==\<close> against a constant that is not NaN is HOL equality.
\<close>

instantiation double :: "{plus, minus, times, inverse, ord}"
begin

fun plus_double :: "double \<Rightarrow> double \<Rightarrow> double" where
  "plus_double (Fin a) (Fin b) = round_double (a + b)"
| "plus_double NaN _ = NaN"
| "plus_double _ NaN = NaN"
| "plus_double PInf NInf = NaN"
| "plus_double NInf PInf = NaN"
| "plus_double PInf _ = PInf"
| "plus_double _ PInf = PInf"
| "plus_double NInf _ = NInf"
| "plus_double _ NInf = NInf"

fun minus_double :: "double \<Rightarrow> double \<Rightarrow> double" where
  "minus_double (Fin a) (Fin b) = round_double (a - b)"
| "minus_double NaN _ = NaN"
| "minus_double _ NaN = NaN"
| "minus_double PInf PInf = NaN"
| "minus_double NInf NInf = NaN"
| "minus_double PInf _ = PInf"
| "minus_double _ NInf = PInf"
| "minus_double NInf _ = NInf"
| "minus_double _ PInf = NInf"

fun times_double :: "double \<Rightarrow> double \<Rightarrow> double" where
  "times_double (Fin a) (Fin b) = round_double (a * b)"
| "times_double NaN _ = NaN"
| "times_double _ NaN = NaN"
| "times_double PInf (Fin b) = (if b = 0 then NaN else if 0 < b then PInf else NInf)"
| "times_double NInf (Fin b) = (if b = 0 then NaN else if 0 < b then NInf else PInf)"
| "times_double (Fin a) PInf = (if a = 0 then NaN else if 0 < a then PInf else NInf)"
| "times_double (Fin a) NInf = (if a = 0 then NaN else if 0 < a then NInf else PInf)"
| "times_double PInf PInf = PInf"
| "times_double NInf NInf = PInf"
| "times_double PInf NInf = NInf"
| "times_double NInf PInf = NInf"

fun divide_double :: "double \<Rightarrow> double \<Rightarrow> double" where
  "divide_double (Fin a) (Fin b) =
     (if b = 0 then (if a = 0 then NaN else if 0 < a then PInf else NInf)
      else round_double (a / b))"
| "divide_double NaN _ = NaN"
| "divide_double _ NaN = NaN"
| "divide_double (Fin a) _ = Fin 0"
| "divide_double PInf (Fin b) = (if 0 \<le> b then PInf else NInf)"
| "divide_double NInf (Fin b) = (if 0 \<le> b then NInf else PInf)"
| "divide_double _ _ = NaN"

fun inverse_double :: "double \<Rightarrow> double" where
  "inverse_double (Fin a) = (if a = 0 then PInf else round_double (1 / a))"
| "inverse_double NaN = NaN"
| "inverse_double _ = Fin 0"

fun less_eq_double :: "double \<Rightarrow> double \<Rightarrow> bool" where
  "less_eq_double NaN _ = False"
| "less_eq_double _ NaN = False"
| "less_eq_double NInf _ = True"
| "less_eq_double _ PInf = True"
| "less_eq_double (Fin a) (Fin b) = (a \<le> b)"
| "less_eq_double _ _ = False"

fun less_double :: "double \<Rightarrow> double \<Rightarrow> bool" where
  "less_double NaN _ = False"
| "less_double _ NaN = False"
| "less_double (Fin a) (Fin b) = (a < b)"
| "less_double NInf NInf = False"
| "less_double NInf _ = True"
| "less_double PInf _ = False"
| "less_double _ PInf = True"
| "less_double _ _ = False"

instance ..

end

text \<open>\<^verbatim>\<open>std::sqrt\<close>, correctly rounded; NaN for a negative argument.\<close>

fun std_sqrt :: "double \<Rightarrow> double" where
  "std_sqrt (Fin a) = (if a < 0 then NaN else round_double (sqrt a))"
| "std_sqrt PInf = PInf"
| "std_sqrt _ = NaN"

text \<open>\<^verbatim>\<open>std::max(a, b)\<close> is \<^verbatim>\<open>(a < b) ? b : a\<close> and \<^verbatim>\<open>std::min(a, b)\<close> is
  \<^verbatim>\<open>(b < a) ? b : a\<close>; with a NaN argument both return \<open>a\<close>.\<close>

definition std_max :: "double \<Rightarrow> double \<Rightarrow> double" where
  "std_max a b = (if a < b then b else a)"

definition std_min :: "double \<Rightarrow> double \<Rightarrow> double" where
  "std_min a b = (if b < a then b else a)"

text \<open>\<^verbatim>\<open>std::numeric_limits<double>::max()\<close>, the largest finite double.\<close>

definition DBL_MAX :: double where
  "DBL_MAX = Fin ((2 ^ 53 - 1) * 2 ^ 971)"

subsection \<open>The depth-phase catalog\<close>

text \<open>\<^verbatim>\<open>depthPhaseTable\<close>: the rows before the terminating \<^verbatim>\<open>{nullptr, nullptr}\<close>.\<close>

definition depthPhaseTable :: "(string \<times> string) list" where
  "depthPhaseTable =
     [(''pP'', ''P''), (''sP'', ''P''), (''pwP'', ''P''), (''pS'', ''S''),
      (''sS'', ''S''), (''pPKP'', ''PKP''), (''sPKP'', ''PKP'')]"

fun isDepthPhase_loop :: "(string \<times> string) list \<Rightarrow> string \<Rightarrow> bool" where
  "isDepthPhase_loop [] phase = False"
| "isDepthPhase_loop (info # rest) phase =
     (if phase = fst info then True else isDepthPhase_loop rest phase)"

definition isDepthPhase :: "string \<Rightarrow> bool" where
  "isDepthPhase phase = isDepthPhase_loop depthPhaseTable phase"

fun getReferencePhase_loop :: "(string \<times> string) list \<Rightarrow> string \<Rightarrow> string" where
  "getReferencePhase_loop [] depthPhase = ''P''"
| "getReferencePhase_loop (info # rest) depthPhase =
     (if depthPhase = fst info then snd info else getReferencePhase_loop rest depthPhase)"

definition getReferencePhase :: "string \<Rightarrow> string" where
  "getReferencePhase depthPhase = getReferencePhase_loop depthPhaseTable depthPhase"

subsection \<open>The depth-phase analyzer: data\<close>

text \<open>\<^verbatim>\<open>struct DepthPhaseConfig\<close>. The field \<^verbatim>\<open>weight\<close> is named \<open>weight_cfg\<close>
  here, since the observation has a field of the same name. \<^verbatim>\<open>minPhaseCount\<close> is an
  \<^verbatim>\<open>int\<close>; the counters compared with it count list elements and are modelled as
  unbounded integers.\<close>

record DepthPhaseConfig =
  phases :: "string list"
  minDepth :: double
  maxDepth :: double
  minDistance :: double
  maxDistance :: double
  maxResidual :: double
  minPhaseCount :: int
  weight_cfg :: double
  searchWindowBefore :: double
  searchWindowAfter :: double

text \<open>\<^verbatim>\<open>struct DepthPhaseObservation\<close>.\<close>

record DepthPhaseObservation =
  phase :: string
  referencePhase :: string
  stationCode :: string
  networkCode :: string
  observedTime :: double
  theoreticalTime :: double
  residual :: double
  timeDifferenceObs :: double
  timeDifferenceTheo :: double
  distance :: double
  weight :: double
  isValid :: bool

text \<open>
  Modelled from the spec: \<^verbatim>\<open>TravelTime\<close> and \<^verbatim>\<open>TravelTimeTableInterface\<close> are declared in
  \<^verbatim>\<open>seiscomp/seismology/ttt.h\<close>, which is not among the sources. Of a travel time the
  code reads the phase name and the arrival time in seconds. The oracle has the two
  \<^verbatim>\<open>compute\<close> overloads the analyzer calls: one for a named phase, which returns a
  travel time or throws, and one for all phases, which returns a pointer to a list (null
  is \<open>None\<close>) or throws. What is thrown is a \<^verbatim>\<open>std::exception\<close>, the type the
  analyzer's \<^verbatim>\<open>catch\<close> clause names; it carries its \<^verbatim>\<open>what()\<close> text. The six
  doubles are source latitude, longitude and depth and station latitude, longitude and
  elevation.
\<close>

record TravelTime =
  phase_tt :: string
  time_tt :: double

datatype std_exception = Exception string

record TravelTimeTableInterface =
  compute_phase :: "string \<Rightarrow> double \<Rightarrow> double \<Rightarrow> double \<Rightarrow> double \<Rightarrow> double \<Rightarrow> double
                    \<Rightarrow> std_exception + TravelTime"
  compute_all :: "double \<Rightarrow> double \<Rightarrow> double \<Rightarrow> double \<Rightarrow> double \<Rightarrow> double
                    \<Rightarrow> std_exception + TravelTime list option"

text \<open>The members \<^verbatim>\<open>_config\<close> and \<^verbatim>\<open>_ttt\<close> of \<^verbatim>\<open>class DepthPhaseAnalyzer\<close>; a null
  \<^verbatim>\<open>_ttt\<close> is \<open>None\<close>.\<close>

record DepthPhaseAnalyzer =
  a_config :: DepthPhaseConfig
  a_ttt :: "TravelTimeTableInterface option"

subsection \<open>The depth-phase analyzer: operations\<close>

text \<open>\<^verbatim>\<open>bool setTravelTimeTable(TravelTimeTableInterface *ttt)\<close>: the result and the
  analyzer after the call.\<close>

definition setTravelTimeTable ::
  "TravelTimeTableInterface option \<Rightarrow> DepthPhaseAnalyzer \<Rightarrow> bool \<times> DepthPhaseAnalyzer" where
  "setTravelTimeTable ttt a =
     (let a' = a\<lparr>a_ttt := ttt\<rparr> in (a_ttt a' \<noteq> None, a'))"

text \<open>\<^verbatim>\<open>std::string::c_str()\<close> read as a C string: the characters before the first NUL.\<close>

definition c_str :: "string \<Rightarrow> string" where
  "c_str s = takeWhile (\<lambda>c. c \<noteq> CHR 0x00) s"

text \<open>The inner loop of \<^verbatim>\<open>computeDepthPhaseTimes\<close>: is the phase of a travel time among
  the target phases?\<close>

fun include_phase :: "string list \<Rightarrow> TravelTime \<Rightarrow> bool" where
  "include_phase [] tt = False"
| "include_phase (ph # rest) tt = (if phase_tt tt = ph then True else include_phase rest tt)"

fun computeDepthPhaseTimes_loop :: "string list \<Rightarrow> TravelTime list \<Rightarrow> TravelTime list
    \<Rightarrow> TravelTime list" where
  "computeDepthPhaseTimes_loop targetPhases [] result = result"
| "computeDepthPhaseTimes_loop targetPhases (tt # rest) result =
     (if include_phase targetPhases tt
      then computeDepthPhaseTimes_loop targetPhases rest (result @ [tt])
      else computeDepthPhaseTimes_loop targetPhases rest result)"

text \<open>\<^verbatim>\<open>computeDepthPhaseTimes\<close> has no \<^verbatim>\<open>try\<close>: an exception of the oracle propagates
  (\<open>Inl\<close>).\<close>

definition computeDepthPhaseTimes ::
  "DepthPhaseAnalyzer \<Rightarrow> double \<Rightarrow> double \<Rightarrow> double \<Rightarrow> double \<Rightarrow> double \<Rightarrow> double
   \<Rightarrow> string list \<Rightarrow> std_exception + TravelTime list" where
  "computeDepthPhaseTimes a lat lon depth stationLat stationLon stationElev phs =
     (case a_ttt a of
        None \<Rightarrow> Inr []
      | Some ttt \<Rightarrow>
          (case compute_all ttt lat lon depth stationLat stationLon stationElev of
             Inl e \<Rightarrow> Inl e
           | Inr None \<Rightarrow> Inr []
           | Inr (Some ttList) \<Rightarrow>
               (let targetPhases = (if phs = [] then phases (a_config a) else phs)
                in Inr (computeDepthPhaseTimes_loop targetPhases ttList []))))"

text \<open>\<^verbatim>\<open>computeDepthPhaseTimeDifference\<close>: the \<^verbatim>\<open>try\<close> block ends at the first call
  that throws, the handler only logs, and control reaches the final
  \<^verbatim>\<open>return -1.0\<close>.\<close>

definition computeDepthPhaseTimeDifference ::
  "DepthPhaseAnalyzer \<Rightarrow> string \<Rightarrow> double \<Rightarrow> double \<Rightarrow> double \<Rightarrow> double \<Rightarrow> double \<Rightarrow> double
   \<Rightarrow> double" where
  "computeDepthPhaseTimeDifference a depthPhase lat lon depth stationLat stationLon stationElev =
     (case a_ttt a of
        None \<Rightarrow> Fin (- 1)
      | Some ttt \<Rightarrow>
          (let refPhase = getReferencePhase depthPhase in
           case compute_phase ttt (c_str depthPhase) lat lon depth
                  stationLat stationLon stationElev of
             Inl e \<Rightarrow> Fin (- 1)
           | Inr ttDepth \<Rightarrow>
               (case compute_phase ttt (c_str refPhase) lat lon depth
                       stationLat stationLon stationElev of
                  Inl e \<Rightarrow> Fin (- 1)
                | Inr ttRef \<Rightarrow>
                    if Fin 0 < time_tt ttDepth \<and> Fin 0 < time_tt ttRef
                    then time_tt ttDepth - time_tt ttRef
                    else Fin (- 1))))"

text \<open>The loop of \<^verbatim>\<open>calculateMisfit\<close> over the observations, with its three
  accumulators.\<close>

fun calculateMisfit_loop ::
  "DepthPhaseObservation list \<Rightarrow> double \<Rightarrow> double \<Rightarrow> int \<Rightarrow> double \<times> double \<times> int" where
  "calculateMisfit_loop [] sumSquaredResiduals sumWeights count =
     (sumSquaredResiduals, sumWeights, count)"
| "calculateMisfit_loop (obs # rest) sumSquaredResiduals sumWeights count =
     (if \<not> isValid obs then calculateMisfit_loop rest sumSquaredResiduals sumWeights count
      else
        (let residual = timeDifferenceObs obs - timeDifferenceTheo obs;
             weight = weight obs
         in calculateMisfit_loop rest
              (sumSquaredResiduals + weight * residual * residual)
              (sumWeights + weight)
              (count + 1)))"

definition calculateMisfit ::
  "double \<Rightarrow> double \<Rightarrow> double \<Rightarrow> DepthPhaseObservation list \<Rightarrow> double" where
  "calculateMisfit lat lon depth observations =
     (case calculateMisfit_loop observations (Fin 0) (Fin 0) 0 of
        (sumSquaredResiduals, sumWeights, count) \<Rightarrow>
          if count = 0 \<or> sumWeights = Fin 0 then DBL_MAX
          else std_sqrt (sumSquaredResiduals / sumWeights))"

text \<open>The \<^verbatim>\<open>for\<close> loop of \<^verbatim>\<open>gridSearchDepth\<close>. It runs forever when the additions of
  the step never take the depth past the bound (a step that is not positive or that
  rounding absorbs, an infinite bound), so it is a partial function: \<open>None\<close> is a
  loop that does not end.\<close>

partial_function (option) gridSearchDepth_loop ::
  "double \<Rightarrow> double \<Rightarrow> DepthPhaseObservation list \<Rightarrow> double \<Rightarrow> double
   \<Rightarrow> double \<Rightarrow> double \<Rightarrow> double \<Rightarrow> double option" where
  "gridSearchDepth_loop lat lon observations maxD step depth bestDepth bestMisfit =
     (if depth \<le> maxD then
        (let misfit = calculateMisfit lat lon depth observations in
         if misfit < bestMisfit
         then gridSearchDepth_loop lat lon observations maxD step (depth + step) depth misfit
         else gridSearchDepth_loop lat lon observations maxD step (depth + step)
                bestDepth bestMisfit)
      else Some bestDepth)"

definition gridSearchDepth ::
  "double \<Rightarrow> double \<Rightarrow> DepthPhaseObservation list \<Rightarrow> double \<Rightarrow> double \<Rightarrow> double
   \<Rightarrow> double option" where
  "gridSearchDepth lat lon observations minD maxD step =
     gridSearchDepth_loop lat lon observations maxD step minD (Fin (- 1)) DBL_MAX"

text \<open>The counting loop of \<^verbatim>\<open>invertForDepth\<close>.\<close>

fun validCount_loop :: "DepthPhaseObservation list \<Rightarrow> int \<Rightarrow> int" where
  "validCount_loop [] validCount = validCount"
| "validCount_loop (obs # rest) validCount =
     (if isValid obs then validCount_loop rest (validCount + 1)
      else validCount_loop rest validCount)"

text \<open>\<^verbatim>\<open>invertForDepth\<close>; \<open>None\<close> when one of the three searches does not end.\<close>

definition invertForDepth ::
  "DepthPhaseAnalyzer \<Rightarrow> double \<Rightarrow> double \<Rightarrow> DepthPhaseObservation list \<Rightarrow> double
   \<Rightarrow> double option" where
  "invertForDepth a lat lon observations initialDepth =
     (if observations = [] then Some (Fin (- 1))
      else if a_ttt a = None then Some (Fin (- 1))
      else
        (let validCount = validCount_loop observations 0 in
         if validCount < minPhaseCount (a_config a) then Some (Fin (- 1))
         else
           (case gridSearchDepth lat lon observations
                   (minDepth (a_config a)) (maxDepth (a_config a)) (Fin 10) of
              None \<Rightarrow> None
            | Some bestDepth1 \<Rightarrow>
                if bestDepth1 < Fin 0 then Some (Fin (- 1))
                else
                  (let minSearch = std_max (minDepth (a_config a)) (bestDepth1 - Fin 20);
                       maxSearch = std_min (maxDepth (a_config a)) (bestDepth1 + Fin 20)
                   in case gridSearchDepth lat lon observations minSearch maxSearch (Fin 1) of
                        None \<Rightarrow> None
                      | Some bestDepth2 \<Rightarrow>
                          if bestDepth2 < Fin 0 then Some (Fin (- 1))
                          else
                            (let minSearch = std_max (minDepth (a_config a))
                                               (bestDepth2 - Fin 5);
                                 maxSearch = std_min (maxDepth (a_config a))
                                               (bestDepth2 + Fin 5)
                             in gridSearchDepth lat lon observations
                                  minSearch maxSearch (Fin (1 / 2)))))))"

subsection \<open>The region-depth lookup: data\<close>

text \<open>\<^verbatim>\<open>struct RegionDepthConfig\<close>.\<close>

record RegionDepthConfig =
  enabled :: bool
  regions :: "string list"
  globalDefaultDepth :: double
  globalMaxDepth :: double

text \<open>\<^verbatim>\<open>struct RegionDepthConstraints\<close>. The field \<^verbatim>\<open>maxDepth\<close> is named
  \<open>maxDepth_region\<close> here, since the analyzer's configuration has a field of the same
  name.\<close>

record RegionDepthConstraints =
  regionName :: string
  defaultDepth :: double
  maxDepth_region :: double
  hasDefaultDepth :: bool
  hasMaxDepth :: bool
  matched :: bool

text \<open>
  Modelled from the spec: \<^verbatim>\<open>Geo::GeoFeature\<close> is declared in \<^verbatim>\<open>seiscomp/geo/feature.h\<close>,
  which is not among the sources. A feature exposes its name, its string-keyed
  attributes and the point-in-polygon test \<^verbatim>\<open>contains\<close>, here a predicate of the
  latitude and longitude the code builds its \<^verbatim>\<open>GeoCoordinate\<close> from. The feature store
  (\<^verbatim>\<open>GeoFeatureSetSingleton\<close>) is the list of its features, an argument of \<open>init\<close>.
  The lookup keeps pointers to features of the store; the model keeps the features.
\<close>

record GeoFeature =
  name :: string
  attributes :: "string \<rightharpoonup> string"
  contains :: "double \<Rightarrow> double \<Rightarrow> bool"

text \<open>The members \<^verbatim>\<open>_config\<close>, \<^verbatim>\<open>_regions\<close> and \<^verbatim>\<open>_initialized\<close> of
  \<^verbatim>\<open>class RegionDepthLookup\<close>.\<close>

record RegionDepthLookup =
  l_config :: RegionDepthConfig
  l_regions :: "GeoFeature list"
  l_initialized :: bool

subsection \<open>The region-depth lookup: operations\<close>

text \<open>\<^verbatim>\<open>RegionDepthLookup::setConfig\<close> and the accessors \<^verbatim>\<open>config\<close>,
  \<^verbatim>\<open>isInitialized\<close>, \<^verbatim>\<open>regionCount\<close> and \<^verbatim>\<open>regionNames\<close> of the lookup.\<close>

definition setConfig :: "RegionDepthConfig \<Rightarrow> RegionDepthLookup \<Rightarrow> RegionDepthLookup" where
  "setConfig cfg l = l\<lparr>l_config := cfg, l_initialized := False, l_regions := []\<rparr>"

definition config :: "RegionDepthLookup \<Rightarrow> RegionDepthConfig" where
  "config l = l_config l"

definition isInitialized :: "RegionDepthLookup \<Rightarrow> bool" where
  "isInitialized l = l_initialized l"

definition regionCount :: "RegionDepthLookup \<Rightarrow> nat" where
  "regionCount l = length (l_regions l)"

definition regionNames :: "RegionDepthLookup \<Rightarrow> string list" where
  "regionNames l = map name (l_regions l)"

text \<open>The inner loop of \<^verbatim>\<open>init\<close>: the first feature of the store with the name, where
  the loop pushes the feature and breaks.\<close>

fun init_find :: "GeoFeature list \<Rightarrow> string \<Rightarrow> GeoFeature option" where
  "init_find [] rName = None"
| "init_find (feature # rest) rName =
     (if name feature = rName then Some feature else init_find rest rName)"

text \<open>The outer loop of \<^verbatim>\<open>init\<close> over the configured names (\<open>rName\<close> is the
  loop variable \<^verbatim>\<open>regionName\<close>); the third argument is \<^verbatim>\<open>_regions\<close>.\<close>

fun init_loop :: "GeoFeature list \<Rightarrow> string list \<Rightarrow> GeoFeature list \<Rightarrow> GeoFeature list" where
  "init_loop features [] regs = regs"
| "init_loop features (rName # rest) regs =
     (case init_find features rName of
        Some feature \<Rightarrow> init_loop features rest (regs @ [feature])
      | None \<Rightarrow> init_loop features rest regs)"

text \<open>\<^verbatim>\<open>init\<close>: the result and the lookup after the call. The two
  \<^verbatim>\<open>parseDepthAttribute\<close> calls of the loop body feed the log message only.\<close>

definition init :: "GeoFeature list \<Rightarrow> RegionDepthLookup \<Rightarrow> bool \<times> RegionDepthLookup" where
  "init features l =
     (let l1 = l\<lparr>l_regions := [], l_initialized := False\<rparr> in
      if \<not> enabled (l_config l1) then (False, l1)
      else if regions (l_config l1) = [] then (False, l1)
      else
        (let l2 = l1\<lparr>l_regions := init_loop features (regions (l_config l1)) (l_regions l1)\<rparr>;
             l3 = l2\<lparr>l_initialized := (l_regions l2 \<noteq> [])\<rparr>
         in (l_initialized l3, l3)))"

text \<open>\<^verbatim>\<open>parseDepthAttribute\<close>: \<open>Some\<close> of the value when the attribute is found and
  parsed. \<^verbatim>\<open>Core::fromString\<close> (of \<^verbatim>\<open>seiscomp/core/strings.h\<close>, not among the sources)
  is the parameter \<open>fromString\<close>: \<open>None\<close> where it returns false.\<close>

definition parseDepthAttribute ::
  "(string \<Rightarrow> double option) \<Rightarrow> GeoFeature \<Rightarrow> string \<Rightarrow> double option" where
  "parseDepthAttribute fromString feature attrName =
     (case attributes feature attrName of
        None \<Rightarrow> None
      | Some text \<Rightarrow> fromString text)"

text \<open>The loop of \<^verbatim>\<open>getConstraints\<close> over \<^verbatim>\<open>_regions\<close>, returning from inside at the
  first region that contains the location.\<close>

fun getConstraints_loop ::
  "(string \<Rightarrow> double option) \<Rightarrow> double \<Rightarrow> double \<Rightarrow> GeoFeature list
   \<Rightarrow> RegionDepthConstraints \<Rightarrow> RegionDepthConstraints" where
  "getConstraints_loop fromString lat lon [] result = result"
| "getConstraints_loop fromString lat lon (region # rest) result =
     (if contains region lat lon then
        (let result1 = result\<lparr>regionName := name region, matched := True\<rparr>;
             result2 = (case parseDepthAttribute fromString region ''defaultDepth'' of
                          Some depth \<Rightarrow> result1\<lparr>defaultDepth := depth, hasDefaultDepth := True\<rparr>
                        | None \<Rightarrow> result1);
             result3 = (case parseDepthAttribute fromString region ''maxDepth'' of
                          Some depth \<Rightarrow> result2\<lparr>maxDepth_region := depth, hasMaxDepth := True\<rparr>
                        | None \<Rightarrow> result2)
         in result3)
      else getConstraints_loop fromString lat lon rest result)"

text \<open>\<^verbatim>\<open>getConstraints\<close>. The result starts from the default member initializers of
  the struct, with the two depths and \<^verbatim>\<open>matched\<close> assigned.\<close>

definition getConstraints ::
  "(string \<Rightarrow> double option) \<Rightarrow> RegionDepthLookup \<Rightarrow> double \<Rightarrow> double
   \<Rightarrow> RegionDepthConstraints" where
  "getConstraints fromString l lat lon =
     (let result = \<lparr>regionName = [],
                     defaultDepth = globalDefaultDepth (l_config l),
                     maxDepth_region = globalMaxDepth (l_config l),
                     hasDefaultDepth = False, hasMaxDepth = False, matched = False\<rparr>
      in if \<not> enabled (l_config l) \<or> l_regions l = [] then result
         else getConstraints_loop fromString lat lon (l_regions l) result)"

subsection \<open>Concrete inputs\<close>

text \<open>The default member initializers of \<^verbatim>\<open>DepthPhaseConfig\<close>.\<close>

definition DepthPhaseConfig_default :: DepthPhaseConfig where
  "DepthPhaseConfig_default =
     \<lparr>phases = [''pP'', ''sP'', ''pwP''], minDepth = Fin 15, maxDepth = Fin 700,
      minDistance = Fin 30, maxDistance = Fin 90, maxResidual = Fin 3,
      minPhaseCount = 3, weight_cfg = Fin (3 / 2),
      searchWindowBefore = Fin 5, searchWindowAfter = Fin 10\<rparr>"

text \<open>An oracle whose pP arrives \<open>2 * depth\<close> seconds after P (scenario S4 of the
  specification); it knows no other phase.\<close>

definition oracle_2depth :: TravelTimeTableInterface where
  "oracle_2depth =
     \<lparr>compute_phase = (\<lambda>ph lat lon depth stationLat stationLon stationElev.
         if ph = ''P'' then Inr \<lparr>phase_tt = ''P'', time_tt = Fin 500\<rparr>
         else if ph = ''pP'' then Inr \<lparr>phase_tt = ''pP'', time_tt = Fin 500 + Fin 2 * depth\<rparr>
         else Inl (Exception ''phase not found'')),
      compute_all = (\<lambda>lat lon depth stationLat stationLon stationElev.
         Inr (Some [\<lparr>phase_tt = ''P'', time_tt = Fin 500\<rparr>,
                    \<lparr>phase_tt = ''pP'', time_tt = Fin 500 + Fin 2 * depth\<rparr>]))\<rparr>"

text \<open>A pP observation at one station with the given observed and theoretical pP-P
  time differences, weight and validity flag.\<close>

definition pP_observation :: "double \<Rightarrow> double \<Rightarrow> double \<Rightarrow> bool \<Rightarrow> DepthPhaseObservation" where
  "pP_observation tObs tTheo w valid =
     \<lparr>phase = ''pP'', referencePhase = ''P'', stationCode = ''STA'', networkCode = ''NET'',
      observedTime = Fin 500 + tObs, theoreticalTime = Fin 500 + tTheo,
      residual = tObs - tTheo, timeDifferenceObs = tObs, timeDifferenceTheo = tTheo,
      distance = Fin 60, weight = w, isValid = valid\<rparr>"

text \<open>Scenario S4: depths from 0 to 100 km, three valid observations of weight 1 with
  observed differences 80, 82 and 78 s; the stored theoretical difference is the
  oracle's at 40 km.\<close>

definition S4_analyzer :: DepthPhaseAnalyzer where
  "S4_analyzer =
     \<lparr>a_config = DepthPhaseConfig_default\<lparr>minDepth := Fin 0, maxDepth := Fin 100\<rparr>,
      a_ttt = Some oracle_2depth\<rparr>"

definition S4_observations :: "DepthPhaseObservation list" where
  "S4_observations =
     [pP_observation (Fin 80) (Fin 80) (Fin 1) True,
      pP_observation (Fin 82) (Fin 80) (Fin 1) True,
      pP_observation (Fin 78) (Fin 80) (Fin 1) True]"

text \<open>An analyzer with the default configuration and the oracle set.\<close>

definition default_analyzer :: DepthPhaseAnalyzer where
  "default_analyzer = \<lparr>a_config = DepthPhaseConfig_default, a_ttt = Some oracle_2depth\<rparr>"

text \<open>Scenario S6: two overlapping squares, A with \<^verbatim>\<open>maxDepth: 35\<close> and B with
  \<^verbatim>\<open>defaultDepth: 33, maxDepth: 700\<close>, and a parser that reads the three numerals.\<close>

definition inBox :: "real \<Rightarrow> real \<Rightarrow> real \<Rightarrow> real \<Rightarrow> double \<Rightarrow> double \<Rightarrow> bool" where
  "inBox latLo latHi lonLo lonHi lat lon =
     (Fin latLo \<le> lat \<and> lat \<le> Fin latHi \<and> Fin lonLo \<le> lon \<and> lon \<le> Fin lonHi)"

definition region_A :: GeoFeature where
  "region_A = \<lparr>name = ''A'', attributes = [''maxDepth'' \<mapsto> ''35''],
               contains = inBox 0 10 0 10\<rparr>"

definition region_B :: GeoFeature where
  "region_B = \<lparr>name = ''B'', attributes = [''defaultDepth'' \<mapsto> ''33'', ''maxDepth'' \<mapsto> ''700''],
               contains = inBox 5 15 5 15\<rparr>"

definition parse_numeral :: "string \<Rightarrow> double option" where
  "parse_numeral text =
     (if text = ''35'' then Some (Fin 35)
      else if text = ''33'' then Some (Fin 33)
      else if text = ''700'' then Some (Fin 700)
      else None)"

definition S6_config :: RegionDepthConfig where
  "S6_config = \<lparr>enabled = True, regions = [''A'', ''missing'', ''B''],
                globalDefaultDepth = Fin 10, globalMaxDepth = Fin 700\<rparr>"

definition S6_lookup :: RegionDepthLookup where
  "S6_lookup = \<lparr>l_config = S6_config, l_regions = [region_A, region_B], l_initialized = True\<rparr>"

text \<open>Three valid observations of weight 1 whose stored differences agree.\<close>

definition exact_observations :: "DepthPhaseObservation list" where
  "exact_observations =
     [pP_observation (Fin 80) (Fin 80) (Fin 1) True,
      pP_observation (Fin 80) (Fin 80) (Fin 1) True,
      pP_observation (Fin 80) (Fin 80) (Fin 1) True]"

text \<open>The same with a NaN observed difference in the first.\<close>

definition nan_observations :: "DepthPhaseObservation list" where
  "nan_observations =
     [pP_observation NaN (Fin 80) (Fin 1) True,
      pP_observation (Fin 80) (Fin 80) (Fin 1) True,
      pP_observation (Fin 80) (Fin 80) (Fin 1) True]"

text \<open>Analyzers with a negative minimum depth, and with no minimum number of phases.\<close>

definition negMin_analyzer :: DepthPhaseAnalyzer where
  "negMin_analyzer =
     \<lparr>a_config = DepthPhaseConfig_default\<lparr>minDepth := Fin (- 5), maxDepth := Fin 100\<rparr>,
      a_ttt = Some oracle_2depth\<rparr>"

definition noCount_analyzer :: DepthPhaseAnalyzer where
  "noCount_analyzer =
     \<lparr>a_config = DepthPhaseConfig_default\<lparr>minPhaseCount := 0\<rparr>, a_ttt = Some oracle_2depth\<rparr>"


text \<open>An analyzer whose maximum depth is infinite, and one whose minimum and maximum
  depth are both \<open>10 ^ 18\<close>, a value of the format.\<close>

definition unbounded_analyzer :: DepthPhaseAnalyzer where
  "unbounded_analyzer =
     \<lparr>a_config = DepthPhaseConfig_default\<lparr>maxDepth := PInf\<rparr>, a_ttt = Some oracle_2depth\<rparr>"


text \<open>Three valid observations of weight 1, the first with the observed difference
  \<open>2 ^ 600\<close> and the theoretical difference 0.\<close>

definition overflow_observations :: "DepthPhaseObservation list" where
  "overflow_observations =
     [pP_observation (Fin (2 ^ 600)) (Fin 0) (Fin 1) True,
      pP_observation (Fin 80) (Fin 80) (Fin 1) True,
      pP_observation (Fin 80) (Fin 80) (Fin 1) True]"

text \<open>A region C outside A and B whose \<^verbatim>\<open>maxDepth\<close> does not parse, and a lookup that
  retains A, B and C.\<close>

definition region_C :: GeoFeature where
  "region_C = \<lparr>name = ''C'', attributes = [''defaultDepth'' \<mapsto> ''33'', ''maxDepth'' \<mapsto> ''deep''],
               contains = inBox 20 30 20 30\<rparr>"

definition ABC_lookup :: RegionDepthLookup where
  "ABC_lookup = \<lparr>l_config = S6_config\<lparr>regions := [''A'', ''B'', ''C'']\<rparr>,
                 l_regions = [region_A, region_B, region_C], l_initialized = True\<rparr>"

section \<open>Properties\<close>

subsection \<open>Rounding\<close>

text \<open>Rounding is monotone, keeps the values of the format and never gives NaN; the
  integers up to \<open>2 ^ 53\<close> and their halves are values of the format.\<close>

lemma binary64I: "\<bar>m\<bar> < 2 ^ 53 \<Longrightarrow> k \<le> 2045 \<Longrightarrow> of_int m * 2 ^ k / 2 ^ 1074 \<in> binary64"
  unfolding binary64_def by blast

lemma binary64_bound:
  assumes "r \<in> binary64"
  shows "\<bar>r\<bar> < 2 ^ 1024"
proof -
  from assms obtain m :: int and k :: nat
    where mk: "\<bar>m\<bar> < 2 ^ 53" "k \<le> 2045" and r: "r = of_int m * 2 ^ k / 2 ^ 1074"
    unfolding binary64_def by blast
  from mk(1) have "\<bar>m\<bar> \<le> 2 ^ 53 - 1" by simp
  then have "real_of_int \<bar>m\<bar> \<le> real_of_int (2 ^ 53 - 1)" by (rule of_int_le_iff [THEN iffD2])
  then have m: "\<bar>real_of_int m\<bar> \<le> 2 ^ 53 - 1" by simp
  have k: "(2::real) ^ k \<le> 2 ^ 2045"
    using mk(2) by (intro power_increasing) simp_all
  have "\<bar>real_of_int m\<bar> * 2 ^ k \<le> (2 ^ 53 - 1) * 2 ^ 2045"
    using m k by (intro mult_mono) simp_all
  then have "\<bar>r\<bar> \<le> (2 ^ 53 - 1) * 2 ^ 2045 / 2 ^ 1074"
    unfolding r by (simp add: abs_mult divide_right_mono)
  also have "\<dots> < 2 ^ 1024" by simp
  finally show ?thesis .
qed

lemma finite_binary64: "finite binary64"
proof -
  have "binary64 \<subseteq> (\<lambda>(m, k). real_of_int m * 2 ^ k / 2 ^ 1074) ` ({- (2 ^ 53) .. 2 ^ 53} \<times> {.. 2045})"
  proof
    fix x assume "x \<in> binary64"
    then obtain m :: int and k :: nat
      where mk: "\<bar>m\<bar> < 2 ^ 53" "k \<le> 2045" and x: "x = of_int m * 2 ^ k / 2 ^ 1074"
      unfolding binary64_def by blast
    from mk have "(m, k) \<in> {- (2 ^ 53) .. 2 ^ 53} \<times> {.. 2045}" by auto
    with x show "x \<in> (\<lambda>(m, k). real_of_int m * 2 ^ k / 2 ^ 1074) ` ({- (2 ^ 53) .. 2 ^ 53} \<times> {.. 2045})"
      by (intro image_eqI [where x = "(m, k)"]) simp_all
  qed
  then show ?thesis by (rule finite_subset) simp
qed

lemma finite_grid64: "finite grid64"
  by (simp add: grid64_def finite_binary64)

lemma grid64_bound:
  assumes "g \<in> grid64"
  shows "\<bar>g\<bar> \<le> 2 ^ 1024"
proof -
  from assms consider "g = 2 ^ 1024" | "g = - (2 ^ 1024)" | "g \<in> binary64"
    unfolding grid64_def by blast
  then show ?thesis
  proof cases
    case 3
    then show ?thesis using binary64_bound [of g] by (simp only: less_imp_le)
  qed simp_all
qed

lemma round_down:
  assumes "- (2 ^ 1024) \<le> x"
  shows "round_down x \<in> grid64" and "round_down x \<le> x"
    and "\<And>g. g \<in> grid64 \<Longrightarrow> g \<le> x \<Longrightarrow> g \<le> round_down x"
proof -
  let ?S = "{g \<in> grid64. g \<le> x}"
  have fin: "finite ?S" using finite_grid64 by simp
  have ne: "?S \<noteq> {}" using assms by (auto simp add: grid64_def)
  from Max_in [OF fin ne] show "round_down x \<in> grid64" and "round_down x \<le> x"
    by (simp_all add: round_down_def)
  show "g \<le> round_down x" if "g \<in> grid64" "g \<le> x" for g
    unfolding round_down_def using fin that by (intro Max_ge) simp_all
qed

lemma round_up:
  assumes "x \<le> 2 ^ 1024"
  shows "round_up x \<in> grid64" and "x \<le> round_up x"
    and "\<And>g. g \<in> grid64 \<Longrightarrow> x \<le> g \<Longrightarrow> round_up x \<le> g"
proof -
  let ?S = "{g \<in> grid64. x \<le> g}"
  have fin: "finite ?S" using finite_grid64 by simp
  have ne: "?S \<noteq> {}" using assms by (auto simp add: grid64_def)
  from Min_in [OF fin ne] show "round_up x \<in> grid64" and "x \<le> round_up x"
    by (simp_all add: round_up_def)
  show "round_up x \<le> g" if "g \<in> grid64" "x \<le> g" for g
    unfolding round_up_def using fin that by (intro Min_le) simp_all
qed

lemma nearest_even_cases:
  "nearest_even x = round_down x \<or> nearest_even x = round_up x"
  by (simp add: nearest_even_def Let_def)

lemma nearest_even_grid:
  assumes "x \<in> grid64"
  shows "nearest_even x = x"
proof -
  from assms have b: "- (2 ^ 1024) \<le> x" "x \<le> 2 ^ 1024"
    using grid64_bound [of x] by simp_all
  have "round_down x = x"
    using round_down(2,3) [OF b(1)] assms by (simp add: antisym)
  moreover have "round_up x = x"
    using round_up(2,3) [OF b(2)] assms by (simp add: antisym)
  ultimately show ?thesis by (simp add: nearest_even_def)
qed

lemma nearest_even_mono:
  assumes "- (2 ^ 1024) \<le> x" "x \<le> y" "y \<le> 2 ^ 1024"
  shows "nearest_even x \<le> nearest_even y"
proof -
  have bx: "- (2 ^ 1024) \<le> x" "x \<le> 2 ^ 1024" and by': "- (2 ^ 1024) \<le> y" "y \<le> 2 ^ 1024"
    using assms by simp_all
  note dx = round_down [OF bx(1)] and ux = round_up [OF bx(2)]
    and dy = round_down [OF by'(1)] and uy = round_up [OF by'(2)]
  show ?thesis
  proof (cases "round_up x \<le> round_down y")
    case True
    have "nearest_even x \<le> round_up x"
      using nearest_even_cases [of x] dx(2) ux(2) by auto
    moreover have "round_down y \<le> nearest_even y"
      using nearest_even_cases [of y] dy(2) uy(2) by auto
    ultimately show ?thesis using True by simp
  next
    case False
    have "round_down y \<le> x"
    proof (rule ccontr)
      assume "\<not> round_down y \<le> x"
      then have "round_up x \<le> round_down y" using ux(3) [OF dy(1)] by simp
      with False show False by simp
    qed
    then have d: "round_down y = round_down x"
      using dx(3) [OF dy(1)] dy(3) [OF dx(1)] dx(2) assms(2) by simp
    have "y \<le> round_up x"
    proof (rule ccontr)
      assume "\<not> y \<le> round_up x"
      then have "round_up x \<le> round_down y" using dy(3) [OF ux(1)] by simp
      with False show False by simp
    qed
    then have u: "round_up y = round_up x"
      using uy(3) [OF ux(1)] ux(3) [OF uy(1)] uy(2) assms(2) by simp
    have "round_down x \<le> round_up x" using dx(2) ux(2) by simp
    then show ?thesis
      using assms(2) unfolding nearest_even_def Let_def d u
      by (auto split: if_splits)
  qed
qed


lemma double_le_refl: "x \<noteq> NaN \<Longrightarrow> (x::double) \<le> x"
  by (cases x) simp_all

lemma double_less_irrefl: "\<not> ((x::double) < x)"
  by (cases x) simp_all

lemma double_le_trans: "(x::double) \<le> y \<Longrightarrow> y \<le> z \<Longrightarrow> x \<le> z"
  by (cases x; cases y; cases z) simp_all

lemma double_less_le_trans: "(x::double) < y \<Longrightarrow> y \<le> z \<Longrightarrow> x < z"
  by (cases x; cases y; cases z) simp_all

lemma double_le_less_trans: "(x::double) \<le> y \<Longrightarrow> y < z \<Longrightarrow> x < z"
  by (cases x; cases y; cases z) simp_all

lemma double_less_imp_le: "(x::double) < y \<Longrightarrow> x \<le> y"
  by (cases x; cases y) simp_all

lemma double_not_less_iff: "x \<noteq> NaN \<Longrightarrow> y \<noteq> NaN \<Longrightarrow> (\<not> (x::double) < y) = (y \<le> x)"
  by (cases x; cases y) auto

lemma double_le_PInf: "x \<noteq> NaN \<Longrightarrow> x \<le> PInf"
  by (cases x) simp_all

lemma double_NInf_le: "x \<noteq> NaN \<Longrightarrow> NInf \<le> x"
  by (cases x) simp_all

lemma nearest_even_in_grid:
  assumes "- (2 ^ 1024) \<le> x" "x \<le> 2 ^ 1024"
  shows "nearest_even x \<in> grid64"
  using nearest_even_cases [of x] round_down(1) [OF assms(1)] round_up(1) [OF assms(2)] by auto

lemma round_double_not_NaN [simp]: "round_double x \<noteq> NaN"
  by (simp add: round_double_def Let_def)

lemma round_double_binary64:
  assumes "x \<in> binary64"
  shows "round_double x = Fin x"
proof -
  have "\<bar>x\<bar> < 2 ^ 1024" using assms by (rule binary64_bound)
  moreover have "nearest_even x = x"
    using assms by (intro nearest_even_grid) (simp add: grid64_def)
  ultimately show ?thesis by (auto simp add: round_double_def)
qed

lemma round_double_mono:
  assumes "x \<le> y"
  shows "round_double x \<le> round_double y"
proof -
  consider "2 ^ 1024 \<le> y" | "x \<le> - (2 ^ 1024)" | "- (2 ^ 1024) < x" "y < 2 ^ 1024"
    by linarith
  then show ?thesis
  proof cases
    case 1
    then have "round_double y = PInf" by (simp add: round_double_def)
    then show ?thesis by (simp add: double_le_PInf)
  next
    case 2
    then have "round_double x = NInf"
      by (simp add: round_double_def)
    then show ?thesis by (simp add: double_NInf_le)
  next
    case 3
    then have b: "- (2 ^ 1024) \<le> x" "x \<le> 2 ^ 1024" "- (2 ^ 1024) \<le> y" "y \<le> 2 ^ 1024"
      using assms by simp_all
    have le: "nearest_even x \<le> nearest_even y"
      using b(1) assms b(4) by (rule nearest_even_mono)
    have "\<bar>nearest_even x\<bar> \<le> 2 ^ 1024" "\<bar>nearest_even y\<bar> \<le> 2 ^ 1024"
      using nearest_even_in_grid [OF b(1,2)] nearest_even_in_grid [OF b(3,4)]
      by (simp_all only: grid64_bound)
    with le 3 assms show ?thesis
      by (auto simp add: round_double_def Let_def)
  qed
qed

lemma round_double_ge: "g \<in> binary64 \<Longrightarrow> g \<le> x \<Longrightarrow> Fin g \<le> round_double x"
  using round_double_mono [of g x] by (simp add: round_double_binary64)

lemma round_double_le: "g \<in> binary64 \<Longrightarrow> x \<le> g \<Longrightarrow> round_double x \<le> Fin g"
  using round_double_mono [of x g] by (simp add: round_double_binary64)

lemma round_double_between:
  assumes "a \<in> binary64" "b \<in> binary64" "a \<le> x" "x \<le> b"
  shows "\<exists>r. round_double x = Fin r \<and> a \<le> r \<and> r \<le> b"
  using round_double_ge [OF assms(1,3)] round_double_le [OF assms(2,4)]
  by (cases "round_double x") simp_all

lemma round_double_overflow: "2 ^ 1024 \<le> x \<Longrightarrow> round_double x = PInf"
  by (simp add: round_double_def)

lemma binary64_of_int:
  assumes "\<bar>n\<bar> \<le> 2 ^ 53"
  shows "real_of_int n \<in> binary64"
proof (cases "\<bar>n\<bar> < 2 ^ 53")
  case True
  from binary64I [OF this, of 1074] show ?thesis by simp
next
  case False
  with assms have "n = 2 ^ 53 \<or> n = - (2 ^ 53)" by linarith
  then show ?thesis
    using binary64I [of "2 ^ 52" 1075] binary64I [of "- (2 ^ 52)" 1075] by auto
qed

lemma binary64_half:
  assumes "\<bar>n\<bar> \<le> 2 ^ 53"
  shows "real_of_int n / 2 \<in> binary64"
proof (cases "\<bar>n\<bar> < 2 ^ 53")
  case True
  from binary64I [OF this, of 1073] show ?thesis by simp
next
  case False
  with assms have "n = 2 ^ 53 \<or> n = - (2 ^ 53)" by linarith
  then show ?thesis
    using binary64I [of "2 ^ 52" 1074] binary64I [of "- (2 ^ 52)" 1074] by auto
qed

lemma round_double_of_int: "\<bar>n\<bar> \<le> 2 ^ 53 \<Longrightarrow> round_double (of_int n) = Fin (of_int n)"
  by (intro round_double_binary64 binary64_of_int)

lemma round_double_numeral [simp]:
  "(numeral w :: int) \<le> 2 ^ 53 \<Longrightarrow> round_double (numeral w) = Fin (numeral w)"
  using round_double_of_int [of "numeral w"] by simp

lemma round_double_neg_numeral [simp]:
  "(numeral w :: int) \<le> 2 ^ 53 \<Longrightarrow> round_double (- numeral w) = Fin (- numeral w)"
  using round_double_of_int [of "- numeral w"] by simp

lemma round_double_0 [simp]: "round_double 0 = Fin 0"
  using round_double_of_int [of 0] by simp

lemma round_double_1 [simp]: "round_double 1 = Fin 1"
  using round_double_of_int [of 1] by simp

lemma plus_double_step:
  assumes "- (2 ^ 52) \<le> d" "d < 2 ^ 52" "1 / 2 \<le> s"
  shows "Fin ((of_int \<lfloor>2 * d\<rfloor> + 1) / 2) \<le> Fin d + Fin s"
proof -
  let ?n = "\<lfloor>2 * d\<rfloor> + 1"
  have "- (2 ^ 53) \<le> \<lfloor>2 * d\<rfloor>"
    using assms(1) by (simp add: le_floor_iff)
  moreover have "\<lfloor>2 * d\<rfloor> < 2 ^ 53"
    using assms(2) by (simp add: floor_less_iff)
  ultimately have "\<bar>?n\<bar> \<le> 2 ^ 53" by linarith
  then have "real_of_int ?n / 2 \<in> binary64" by (rule binary64_half)
  moreover have "real_of_int ?n / 2 \<le> d + s"
  proof -
    have "(f + 1) / 2 \<le> d + s" if "f \<le> 2 * d" for f :: real
      using that assms(3) by (simp add: field_simps)
    from this [OF of_int_floor_le [of "2 * d"]] show ?thesis by simp
  qed
  ultimately have "Fin (real_of_int ?n / 2) \<le> round_double (d + s)"
    by (rule round_double_ge)
  then show ?thesis by simp
qed

subsection \<open>The catalog\<close>

lemma getReferencePhase_range:
  "getReferencePhase p = ''P'' \<or> getReferencePhase p = ''S'' \<or> getReferencePhase p = ''PKP''"
  by (simp add: getReferencePhase_def depthPhaseTable_def)

text \<open>
  C8. For every string \<open>p\<close>, \<open>isDepthPhase (getReferencePhase p)\<close> is false: no value
  that \<open>getReferencePhase\<close> can return is a depth-phase name. Concretely,
  \<open>isDepthPhase\<close> is true of pP and false of P, the reference phase of sPKP is PKP and
  that of an unknown name is P.
\<close>

theorem depth_and_reference_phases_disjoint:
  "\<not> isDepthPhase (getReferencePhase p) \<and>
   isDepthPhase ''pP'' \<and> \<not> isDepthPhase ''P'' \<and>
   getReferencePhase ''sPKP'' = ''PKP'' \<and> getReferencePhase ''unknown'' = ''P''"
proof -
  have "\<not> isDepthPhase ''P''" "\<not> isDepthPhase ''S''" "\<not> isDepthPhase ''PKP''"
    by (simp_all add: isDepthPhase_def depthPhaseTable_def)
  then have "\<not> isDepthPhase (getReferencePhase p)"
    using getReferencePhase_range [of p] by auto
  moreover have "isDepthPhase ''pP''"
    by (simp add: isDepthPhase_def depthPhaseTable_def)
  moreover have "getReferencePhase ''sPKP'' = ''PKP''" "getReferencePhase ''unknown'' = ''P''"
    by (simp_all add: getReferencePhase_def depthPhaseTable_def)
  ultimately show ?thesis
    using \<open>\<not> isDepthPhase ''P''\<close> by simp
qed

theorem depth_and_reference_phases_disjoint_witness:
  "\<not> isDepthPhase (getReferencePhase ''sS'') \<and> getReferencePhase ''sS'' = ''S''"
  using depth_and_reference_phases_disjoint [of "''sS''"]
  by (simp add: getReferencePhase_def depthPhaseTable_def)

subsection \<open>The region-depth lookup\<close>

lemma init_find_Some_iff:
  "(init_find features n \<noteq> None) = (\<exists>f \<in> set features. name f = n)"
  by (induction features) auto

lemma init_loop_eq_Nil_iff:
  "(init_loop features names regs = []) =
     (regs = [] \<and> (\<forall>n \<in> set names. init_find features n = None))"
  by (induction names arbitrary: regs) (auto split: option.splits)

text \<open>
  C6. \<open>init\<close> returns true if and only if the lookup is enabled and at least one
  configured region name is the name of a feature of the store, that is, if and only
  if a region was retained; \<open>isInitialized\<close> has the same value afterwards. When the
  lookup is disabled or no region is configured, \<open>init\<close> returns false and leaves the
  lookup uninitialized with no retained region. The configuration is not changed.
\<close>

theorem init_true_iff_region_resolved:
  "fst (init features l) = isInitialized (snd (init features l)) \<and>
   fst (init features l) = (regionCount (snd (init features l)) \<noteq> 0) \<and>
   fst (init features l) =
     (enabled (l_config l) \<and>
      (\<exists>n \<in> set (regions (l_config l)). \<exists>f \<in> set features. name f = n)) \<and>
   (\<not> enabled (l_config l) \<or> regions (l_config l) = [] \<longrightarrow>
      \<not> fst (init features l) \<and> \<not> isInitialized (snd (init features l)) \<and>
      l_regions (snd (init features l)) = []) \<and>
   config (snd (init features l)) = config l"
proof -
  have "(init_loop features names [] \<noteq> []) =
          (\<exists>n \<in> set names. \<exists>f \<in> set features. name f = n)" for names
    using init_find_Some_iff [of features] by (simp add: init_loop_eq_Nil_iff)
  then show ?thesis
    by (auto simp add: init_def isInitialized_def regionCount_def config_def Let_def)
qed

text \<open>The store holds B, another feature named A and A; the configuration names A, a
  missing region and B. \<open>init\<close> retains the first feature named A and then B.\<close>

theorem init_true_iff_region_resolved_witness:
  "init [region_B, region_A\<lparr>attributes := Map.empty\<rparr>, region_A]
        \<lparr>l_config = S6_config, l_regions = [], l_initialized = False\<rparr>
     = (True, \<lparr>l_config = S6_config,
               l_regions = [region_A\<lparr>attributes := Map.empty\<rparr>, region_B],
               l_initialized = True\<rparr>) \<and>
   fst (init [region_B] \<lparr>l_config = S6_config\<lparr>enabled := False\<rparr>,
                         l_regions = [region_A], l_initialized = True\<rparr>) = False \<and>
   l_regions (snd (init [region_B] \<lparr>l_config = S6_config\<lparr>enabled := False\<rparr>,
                         l_regions = [region_A], l_initialized = True\<rparr>)) = []"
proof -
  let ?l = "\<lparr>l_config = S6_config\<lparr>enabled := False\<rparr>, l_regions = [region_A],
            l_initialized = True\<rparr>"
  have "\<not> enabled (l_config ?l) \<or> regions (l_config ?l) = []" by simp
  with init_true_iff_region_resolved [of "[region_B]" ?l]
  have "\<not> fst (init [region_B] ?l) \<and> l_regions (snd (init [region_B] ?l)) = []"
    by blast
  moreover have "init [region_B, region_A\<lparr>attributes := Map.empty\<rparr>, region_A]
        \<lparr>l_config = S6_config, l_regions = [], l_initialized = False\<rparr>
     = (True, \<lparr>l_config = S6_config,
               l_regions = [region_A\<lparr>attributes := Map.empty\<rparr>, region_B],
               l_initialized = True\<rparr>)"
    by (simp add: init_def S6_config_def region_A_def region_B_def)
  ultimately show ?thesis by simp
qed

text \<open>
  C9. For every configuration \<open>c\<close> and every prior state of a lookup, after
  \<open>setConfig c\<close> the configuration is \<open>c\<close>, the lookup is not initialized and it holds
  no region. The lookup has no other member, so the state after the call is determined
  by \<open>c\<close> alone, and with it every observation: no region name, and the global
  defaults of \<open>c\<close>, unmatched, as constraints of every location.
\<close>

theorem setConfig_resets:
  "config (setConfig c l) = c \<and>
   isInitialized (setConfig c l) = False \<and>
   regionCount (setConfig c l) = 0 \<and>
   setConfig c l = \<lparr>l_config = c, l_regions = [], l_initialized = False\<rparr> \<and>
   regionNames (setConfig c l) = [] \<and>
   getConstraints fromString (setConfig c l) lat lon =
     \<lparr>regionName = [], defaultDepth = globalDefaultDepth c,
      maxDepth_region = globalMaxDepth c,
      hasDefaultDepth = False, hasMaxDepth = False, matched = False\<rparr>"
  by (simp add: setConfig_def config_def isInitialized_def regionCount_def regionNames_def
      getConstraints_def)

theorem setConfig_resets_witness:
  "config (setConfig (S6_config\<lparr>regions := [''B'']\<rparr>) S6_lookup) = S6_config\<lparr>regions := [''B'']\<rparr> \<and>
   regionCount S6_lookup = 2 \<and>
   regionCount (setConfig (S6_config\<lparr>regions := [''B'']\<rparr>) S6_lookup) = 0 \<and>
   isInitialized S6_lookup = True \<and>
   isInitialized (setConfig (S6_config\<lparr>regions := [''B'']\<rparr>) S6_lookup) = False"
proof -
  have "regionCount S6_lookup = 2 \<and> isInitialized S6_lookup = True"
    by (simp add: regionCount_def isInitialized_def S6_lookup_def)
  with setConfig_resets [of "S6_config\<lparr>regions := [''B'']\<rparr>" S6_lookup parse_numeral
      "Fin 0" "Fin 0"]
  show ?thesis by (intro conjI) (elim conjE, assumption)+
qed

subsection \<open>The grid search\<close>

text \<open>The misfit does not depend on the trial depth, so a search never replaces its
  first best. A search ends when its range lies between \<open>-2 ^ 52\<close> and \<open>2 ^ 52\<close>
  and its step is at least a half: there every addition of the step passes the next
  multiple of a half, which is a value of the format.\<close>

lemma calculateMisfit_ignores_trial:
  "calculateMisfit lat lon depth obs = calculateMisfit lat' lon' depth' obs"
  by (simp add: calculateMisfit_def)

lemma half_grid_above: "d \<le> (real_of_int \<lfloor>2 * d\<rfloor> + 1) / 2"
proof -
  have "2 * d < real_of_int \<lfloor>2 * d\<rfloor> + 1" by (rule real_of_int_floor_add_one_gt)
  then show ?thesis by (simp add: field_simps)
qed

lemma gridSearchDepth_loop_exit:
  "\<not> depth \<le> maxD \<Longrightarrow>
   gridSearchDepth_loop lat lon obs maxD step depth best bm = Some best"
  by (subst gridSearchDepth_loop.simps) simp

lemma gridSearchDepth_loop_keep_fin:
  assumes s: "1 / 2 \<le> s" and m: "\<not> calculateMisfit lat lon d0 obs < bm"
    and M: "M < 2 ^ 52"
  shows "- (2 ^ 52) \<le> d \<Longrightarrow> \<lfloor>2 * M\<rfloor> - \<lfloor>2 * d\<rfloor> < int k \<Longrightarrow>
         gridSearchDepth_loop lat lon obs (Fin M) (Fin s) (Fin d) best bm = Some best"
proof (induction k arbitrary: d)
  case 0
  then have "\<lfloor>2 * M\<rfloor> < \<lfloor>2 * d\<rfloor>" by simp
  then have "\<not> d \<le> M" using floor_mono [of "2 * d" "2 * M"] by auto
  then have "\<not> Fin d \<le> Fin M" by simp
  then show ?case by (rule gridSearchDepth_loop_exit)
next
  case (Suc k)
  show ?case
  proof (cases "d \<le> M")
    case False
    then have "\<not> Fin d \<le> Fin M" by simp
    then show ?thesis by (rule gridSearchDepth_loop_exit)
  next
    case True
    have nless: "\<not> calculateMisfit lat lon (Fin d) obs < bm"
      using m calculateMisfit_ignores_trial [of lat lon "Fin d" obs lat lon d0] by simp
    let ?h = "(real_of_int \<lfloor>2 * d\<rfloor> + 1) / 2"
    have step: "Fin ?h \<le> Fin d + Fin s"
      using Suc.prems(1) True M s by (intro plus_double_step) simp_all
    have "gridSearchDepth_loop lat lon obs (Fin M) (Fin s) (Fin d + Fin s) best bm = Some best"
    proof (cases "Fin d + Fin s")
      case (Fin d')
      with step have h: "?h \<le> d'" by simp
      then have "real_of_int (\<lfloor>2 * d\<rfloor> + 1) \<le> 2 * d'" by simp
      then have "\<lfloor>2 * d\<rfloor> + 1 \<le> \<lfloor>2 * d'\<rfloor>" by (simp only: le_floor_iff)
      then have "\<lfloor>2 * M\<rfloor> - \<lfloor>2 * d'\<rfloor> < int k" using Suc.prems(2) by simp
      moreover have "- (2 ^ 52) \<le> d'"
        using half_grid_above [of d] h Suc.prems(1) by simp
      ultimately show ?thesis unfolding Fin by (intro Suc.IH)
    next
      case PInf
      then show ?thesis by (simp add: gridSearchDepth_loop_exit)
    next
      case NInf
      with step show ?thesis by simp
    next
      case NaN
      with step show ?thesis by simp
    qed
    then show ?thesis
      using True nless by (subst gridSearchDepth_loop.simps) simp
  qed
qed

lemma gridSearchDepth_loop_keep:
  assumes s: "1 / 2 \<le> s" and m: "\<not> calculateMisfit lat lon d0 obs < bm"
    and lo: "Fin (- (2 ^ 52)) \<le> depth" and hi: "maxD < Fin (2 ^ 52)"
  shows "gridSearchDepth_loop lat lon obs maxD (Fin s) depth best bm = Some best"
proof (cases "depth \<le> maxD")
  case False
  then show ?thesis by (rule gridSearchDepth_loop_exit)
next
  case True
  with lo hi obtain d M where dM: "depth = Fin d" "maxD = Fin M"
    by (cases depth; cases maxD) simp_all
  define k where "k = nat (\<lfloor>2 * M\<rfloor> - \<lfloor>2 * d\<rfloor>) + 1"
  have k: "\<lfloor>2 * M\<rfloor> - \<lfloor>2 * d\<rfloor> < int k"
    unfolding k_def by simp
  have "M < 2 ^ 52" and "- (2 ^ 52) \<le> d"
    using lo hi unfolding dM by simp_all
  from gridSearchDepth_loop_keep_fin [OF s m this k] show ?thesis
    unfolding dM .
qed

lemma gridSearchDepth_eq:
  assumes s: "1 / 2 \<le> s" and lo: "Fin (- (2 ^ 52)) \<le> minD" and hi: "maxD < Fin (2 ^ 52)"
  shows "gridSearchDepth lat lon obs minD maxD (Fin s) =
           Some (if minD \<le> maxD \<and> calculateMisfit lat lon minD obs < DBL_MAX
                 then minD else Fin (- 1))"
proof (cases "minD \<le> maxD")
  case False
  then show ?thesis
    by (simp add: gridSearchDepth_def gridSearchDepth_loop_exit)
next
  case True
  with lo hi obtain d M where d: "minD = Fin d" "maxD = Fin M" "- (2 ^ 52) \<le> d" "d < 2 ^ 52"
    by (cases minD; cases maxD) simp_all
  have "Fin ((real_of_int \<lfloor>2 * d\<rfloor> + 1) / 2) \<le> Fin d + Fin s"
    using d(3,4) s by (rule plus_double_step)
  moreover have "- (2 ^ 52) \<le> (real_of_int \<lfloor>2 * d\<rfloor> + 1) / 2"
    using d(3) half_grid_above [of d] by simp
  ultimately have next_lo: "Fin (- (2 ^ 52)) \<le> minD + Fin s"
    unfolding d by (cases "Fin d + Fin s") simp_all
  let ?m = "calculateMisfit lat lon minD obs"
  show ?thesis
  proof (cases "?m < DBL_MAX")
    case less: True
    have "\<not> ?m < ?m" by (rule double_less_irrefl)
    then have "gridSearchDepth_loop lat lon obs maxD (Fin s) (minD + Fin s) minD ?m = Some minD"
      using next_lo hi by (intro gridSearchDepth_loop_keep [OF s])
    then show ?thesis
      using True less unfolding gridSearchDepth_def
      by (subst gridSearchDepth_loop.simps) simp
  next
    case False
    then have "gridSearchDepth_loop lat lon obs maxD (Fin s) (minD + Fin s) (Fin (- 1)) DBL_MAX
                 = Some (Fin (- 1))"
      using next_lo hi by (intro gridSearchDepth_loop_keep [OF s])
    then show ?thesis
      using True False unfolding gridSearchDepth_def
      by (subst gridSearchDepth_loop.simps) simp
  qed
qed

lemma std_max_ge: "a \<noteq> NaN \<Longrightarrow> a \<le> std_max a b"
  by (simp add: std_max_def double_less_imp_le double_le_refl)

lemma std_min_le: "a \<noteq> NaN \<Longrightarrow> std_min a b \<le> a"
  by (simp add: std_min_def double_less_imp_le double_le_refl)

lemma std_max_lower:
  assumes "Fin l \<le> a"
  shows "Fin l \<le> std_max a b"
proof -
  from assms have "a \<noteq> NaN" by auto
  then have "a \<le> std_max a b" by (rule std_max_ge)
  with assms show ?thesis by (rule double_le_trans)
qed

lemma std_min_upper:
  assumes "a < Fin u"
  shows "std_min a b < Fin u"
proof -
  from assms have "a \<noteq> NaN" by auto
  then have "std_min a b \<le> a" by (rule std_min_le)
  then show ?thesis using assms by (rule double_le_less_trans)
qed

text \<open>One search of \<open>invertForDepth\<close>, whatever the centre of its range.\<close>

lemma invertForDepth_pass:
  assumes s: "1 / 2 \<le> s" and lo: "Fin (- (2 ^ 52)) \<le> lower" and hi: "upper < Fin (2 ^ 52)"
  shows "gridSearchDepth lat lon obs (std_max lower x) (std_min upper y) (Fin s) =
           Some (if std_max lower x \<le> std_min upper y
                    \<and> calculateMisfit lat lon lower obs < DBL_MAX
                 then std_max lower x else Fin (- 1))"
  using gridSearchDepth_eq [OF s std_max_lower [OF lo] std_min_upper [OF hi]]
    calculateMisfit_ignores_trial [of lat lon "std_max lower x" obs lat lon lower]
  by simp



lemma double_le_not_less: "(x::double) \<le> y \<Longrightarrow> \<not> y < x"
  by (cases x; cases y) auto

lemma std_max_keeps:
  assumes "d \<in> binary64" "0 \<le> c"
  shows "std_max (Fin d) (Fin d - Fin c) = Fin d"
proof -
  have "round_double (d - c) \<le> Fin d"
    using assms by (intro round_double_le) simp_all
  then show ?thesis
    by (simp add: std_max_def double_le_not_less)
qed

lemma std_min_above:
  assumes "d \<in> binary64" "0 \<le> c" "Fin d \<le> upper"
  shows "Fin d \<le> std_min upper (Fin d + Fin c)"
proof -
  have "Fin d \<le> round_double (d + c)"
    using assms by (intro round_double_ge) simp_all
  with assms(3) show ?thesis
    by (simp add: std_min_def)
qed

lemma invertForDepth_minDepth:
  assumes ttt: "a_ttt a \<noteq> None"
    and count: "minPhaseCount (a_config a) \<le> validCount_loop obs 0"
    and misfit: "calculateMisfit lat lon (minDepth (a_config a)) obs < DBL_MAX"
    and d: "minDepth (a_config a) = Fin d" "d \<in> binary64" "0 \<le> d"
    and le: "minDepth (a_config a) \<le> maxDepth (a_config a)"
    and hi: "maxDepth (a_config a) < Fin (2 ^ 52)"
  shows "invertForDepth a lat lon obs initialDepth = Some (Fin d)"
proof -
  have lo: "Fin (- (2 ^ 52)) \<le> minDepth (a_config a)"
    using d by simp
  have ne: "obs \<noteq> []"
    using misfit by (auto simp add: calculateMisfit_def DBL_MAX_def)
  have le': "Fin d \<le> maxDepth (a_config a)" using le d(1) by simp
  have misfit': "calculateMisfit lat lon (Fin d) obs < DBL_MAX" using misfit d(1) by simp
  have pass1: "gridSearchDepth lat lon obs (Fin d) (maxDepth (a_config a)) (Fin 10) = Some (Fin d)"
    using gridSearchDepth_eq [of 10 "minDepth (a_config a)" "maxDepth (a_config a)" lat lon obs]
      lo hi le misfit d(1) by simp
  have pass: "gridSearchDepth lat lon obs (std_max (Fin d) (Fin d - Fin c))
                (std_min (maxDepth (a_config a)) (Fin d + Fin c)) (Fin s) = Some (Fin d)"
    if "1 / 2 \<le> s" "0 \<le> c" for s c
    using invertForDepth_pass [OF that(1) lo hi, of lat lon obs "Fin d - Fin c" "Fin d + Fin c"]
      std_max_keeps [OF d(2) that(2)] std_min_above [OF d(2) that(2) le'] misfit' d(1)
    by simp
  have "\<not> Fin d < Fin 0" using d(3) by simp
  then show ?thesis
    using ttt count ne pass [of 1 20] pass [of "1 / 2" 5]
    by (simp add: invertForDepth_def Let_def d(1) pass1)
qed

subsection \<open>Searches that do not end\<close>

text \<open>With an infinite upper bound no depth fails the loop test. With the bounds
  \<open>10 ^ 18\<close> and the step 10 the addition is absorbed: the neighbours of
  \<open>10 ^ 18 + 10\<close> in the format are \<open>10 ^ 18\<close> and \<open>10 ^ 18 + 128\<close>.\<close>

lemma plus_double_not_NaN: "x \<noteq> NaN \<Longrightarrow> x + Fin s \<noteq> NaN"
  by (cases x) simp_all

lemma gridSearchDepth_loop_unbounded:
  assumes "gridSearchDepth_loop lat lon obs maxD step depth best bm = Some y"
  shows "\<not> (maxD = PInf \<and> (\<exists>s. step = Fin s) \<and> depth \<noteq> NaN)"
proof (rule gridSearchDepth_loop.raw_induct
    [where P = "\<lambda>lat lon obs maxD step depth best bm y.
                  \<not> (maxD = PInf \<and> (\<exists>s. step = Fin s) \<and> depth \<noteq> NaN)", OF _ assms])
  fix loop lat lon obs maxD step depth best bm and y :: double
  assume IH: "\<And>lat lon obs maxD step depth best bm y.
      loop lat lon obs maxD step depth best bm = Some y \<Longrightarrow>
      \<not> (maxD = PInf \<and> (\<exists>s. step = Fin s) \<and> depth \<noteq> NaN)"
    and eq: "(if depth \<le> maxD then
                (let misfit = calculateMisfit lat lon depth obs in
                 if misfit < bm then loop lat lon obs maxD step (depth + step) depth misfit
                 else loop lat lon obs maxD step (depth + step) best bm)
              else Some best) = Some y"
  show "\<not> (maxD = PInf \<and> (\<exists>s. step = Fin s) \<and> depth \<noteq> NaN)"
  proof
    assume a: "maxD = PInf \<and> (\<exists>s. step = Fin s) \<and> depth \<noteq> NaN"
    then have le: "depth \<le> maxD" by (simp add: double_le_PInf)
    from a have next_ok: "maxD = PInf \<and> (\<exists>s. step = Fin s) \<and> depth + step \<noteq> NaN"
      by (auto simp add: plus_double_not_NaN)
    from eq le obtain best' bm' where "loop lat lon obs maxD step (depth + step) best' bm' = Some y"
      by (auto simp add: Let_def split: if_splits)
    from IH [OF this] next_ok show False by blast
  qed
qed

lemma gridSearchDepth_unbounded:
  "minD \<noteq> NaN \<Longrightarrow> gridSearchDepth lat lon obs minD PInf (Fin s) = None"
  using gridSearchDepth_loop_unbounded [of lat lon obs PInf "Fin s" minD "Fin (- 1)" DBL_MAX]
  by (cases "gridSearchDepth lat lon obs minD PInf (Fin s)") (auto simp add: gridSearchDepth_def)







subsection \<open>Observations with the same misfit\<close>



subsection \<open>Evaluating the concrete inputs\<close>

lemma round_double_neg_1 [simp]: "round_double (- 1) = Fin (- 1)"
  using round_double_of_int [of "- 1"] by simp

lemma DBL_MAX_not_less: "\<not> DBL_MAX < DBL_MAX" "\<not> NaN < DBL_MAX" "\<not> PInf < DBL_MAX"
  by (simp_all add: DBL_MAX_def)

lemma std_sqrt_round_moderate:
  assumes "1 / 4 \<le> x" "x \<le> 4"
  shows "\<exists>z. std_sqrt (round_double x) = Fin z \<and> 1 / 2 \<le> z \<and> z \<le> 2"
proof -
  have quarter: "(1 / 4 :: real) \<in> binary64" using binary64I [of 1 1072] by simp
  have half: "(1 / 2 :: real) \<in> binary64" using binary64_half [of 1] by simp
  have two: "(2 :: real) \<in> binary64" and four: "(4 :: real) \<in> binary64"
    using binary64_of_int [of 2] binary64_of_int [of 4] by simp_all
  from round_double_between [OF quarter four assms]
  obtain q where q: "round_double x = Fin q" "1 / 4 \<le> q" "q \<le> 4" by blast
  have "1 / 2 \<le> sqrt q" using q(2) by (intro real_le_rsqrt) (simp add: power2_eq_square)
  moreover have "sqrt q \<le> 2" using q(3) by (intro real_le_lsqrt) simp_all
  ultimately obtain z where "round_double (sqrt q) = Fin z" "1 / 2 \<le> z" "z \<le> 2"
    using round_double_between [OF half two] by blast
  then show ?thesis using q by simp
qed

lemma moderate_less_DBL_MAX: "z \<le> 2 \<Longrightarrow> Fin z < DBL_MAX"
  by (simp add: DBL_MAX_def)

lemma exact_misfit: "calculateMisfit lat lon depth exact_observations = Fin 0"
  by (simp add: calculateMisfit_def exact_observations_def pP_observation_def)

lemma exact_valid: "validCount_loop exact_observations 0 = 3" "exact_observations \<noteq> []"
  by (simp_all add: exact_observations_def pP_observation_def)

lemma nan_misfit: "calculateMisfit lat lon depth nan_observations = NaN"
  by (simp add: calculateMisfit_def nan_observations_def pP_observation_def)

lemma nan_valid: "validCount_loop nan_observations 0 = 3" "nan_observations \<noteq> []"
  by (simp_all add: nan_observations_def pP_observation_def)

lemma binary64_2_600: "(2::real) ^ 600 \<in> binary64"
  using binary64I [of 1 1674] by simp

lemma overflow_misfit: "calculateMisfit lat lon depth overflow_observations = PInf"
proof -
  have "round_double (2 ^ 600) = Fin (2 ^ 600)"
    using binary64_2_600 by (rule round_double_binary64)
  moreover have "round_double (2 ^ 600 * 2 ^ 600) = PInf"
    by (intro round_double_overflow) simp
  ultimately show ?thesis
    by (simp add: calculateMisfit_def overflow_observations_def pP_observation_def)
qed

lemma overflow_valid: "validCount_loop overflow_observations 0 = 3" "overflow_observations \<noteq> []"
  by (simp_all add: overflow_observations_def pP_observation_def)

lemma S4_misfit:
  "calculateMisfit lat lon depth S4_observations = std_sqrt (round_double (8 / 3))"
  by (simp add: calculateMisfit_def S4_observations_def pP_observation_def)

lemma S4_valid: "validCount_loop S4_observations 0 = 3" "S4_observations \<noteq> []"
  by (simp_all add: S4_observations_def pP_observation_def)



lemma binary64_15: "(15::real) \<in> binary64"
  using binary64_of_int [of 15] by simp

lemma binary64_0: "(0::real) \<in> binary64"
  using binary64_of_int [of 0] by simp


lemma invertForDepth_first_pass_fails:
  assumes lo: "Fin (- (2 ^ 52)) \<le> minDepth (a_config a)"
    and hi: "maxDepth (a_config a) < Fin (2 ^ 52)"
    and fails: "\<not> calculateMisfit lat lon (minDepth (a_config a)) obs < DBL_MAX
                \<or> minDepth (a_config a) < Fin 0"
  shows "invertForDepth a lat lon obs initialDepth = Some (Fin (- 1))"
proof -
  have pass1: "gridSearchDepth lat lon obs (minDepth (a_config a)) (maxDepth (a_config a)) (Fin 10)
           = Some (if minDepth (a_config a) \<le> maxDepth (a_config a)
                       \<and> calculateMisfit lat lon (minDepth (a_config a)) obs < DBL_MAX
                   then minDepth (a_config a) else Fin (- 1))"
    using lo hi by (intro gridSearchDepth_eq) simp_all
  show ?thesis
    unfolding invertForDepth_def Let_def pass1 using fails by auto
qed



subsection \<open>The degenerate inversion\<close>

text \<open>
  C1, as amended. For every latitude and longitude and every observation list that
  contains at least \<open>minPhaseCount\<close> valid observations, each with positive weight, and
  whose misfit over the stored time differences, as \<open>calculateMisfit\<close> computes it in
  double arithmetic, is below \<open>DBL_MAX\<close> (so that at least one observation is valid
  and no weighted sum is NaN or infinite): if a travel-time oracle is set, \<open>minDepth\<close>
  is a value of the double format and \<open>0 \<le> minDepth \<le> maxDepth < 2 ^ 52\<close>, then
  \<open>invertForDepth\<close> returns exactly \<open>minDepth\<close>. \<open>calculateMisfit\<close> ignores its trial
  depth, latitude and longitude, so the misfit is the same at every trial depth, and
  in every search with a step of at least a half over a non-empty range between
  \<open>-2 ^ 52\<close> and \<open>2 ^ 52\<close> the first grid point wins.
\<close>

theorem invertForDepth_returns_minDepth:
  assumes "a_ttt a \<noteq> None"
    and "minPhaseCount (a_config a) \<le> validCount_loop observations 0"
    and "\<forall>obs \<in> set observations. isValid obs \<longrightarrow> Fin 0 < weight obs"
    and "calculateMisfit lat lon (minDepth (a_config a)) observations < DBL_MAX"
    and "minDepth (a_config a) \<in> Fin ` binary64"
    and "Fin 0 \<le> minDepth (a_config a)"
    and "minDepth (a_config a) \<le> maxDepth (a_config a)"
    and "maxDepth (a_config a) < Fin (2 ^ 52)"
  shows "invertForDepth a lat lon observations initialDepth = Some (minDepth (a_config a)) \<and>
         calculateMisfit lat' lon' depth' observations
           = calculateMisfit lat lon (minDepth (a_config a)) observations \<and>
         (\<forall>lo hi s. 1 / 2 \<le> s \<and> Fin (- (2 ^ 52)) \<le> lo \<and> lo \<le> hi \<and> hi < Fin (2 ^ 52) \<longrightarrow>
            gridSearchDepth lat lon observations lo hi (Fin s) = Some lo)"
proof -
  from assms(5) obtain d where d: "minDepth (a_config a) = Fin d" "d \<in> binary64" by blast
  with assms(6) have "0 \<le> d" by simp
  with assms d have result: "invertForDepth a lat lon observations initialDepth
                       = Some (minDepth (a_config a))"
    by (simp add: invertForDepth_minDepth)
  have ignored: "calculateMisfit lat' lon' depth' observations
                   = calculateMisfit lat lon (minDepth (a_config a)) observations"
    by (rule calculateMisfit_ignores_trial)
  have first: "gridSearchDepth lat lon observations lo hi (Fin s) = Some lo"
    if "1 / 2 \<le> s \<and> Fin (- (2 ^ 52)) \<le> lo \<and> lo \<le> hi \<and> hi < Fin (2 ^ 52)" for lo hi s
    using that assms(4)
      calculateMisfit_ignores_trial [of lat lon lo observations lat lon "minDepth (a_config a)"]
    by (simp add: gridSearchDepth_eq)
  show ?thesis
    using result ignored first by (intro conjI allI impI)
qed

text \<open>With the default configuration (depths from 15 to 700 km, three phases) and
  three valid observations of weight 1 and misfit 0, the result is 15 km, and a
  search from 40 to 60 km in steps of 1 km returns 40 km.\<close>

theorem invertForDepth_returns_minDepth_witness:
  "map isValid exact_observations = [True, True, True] \<and>
   map weight exact_observations = [Fin 1, Fin 1, Fin 1] \<and>
   minDepth (a_config default_analyzer) = Fin 15 \<and>
   invertForDepth default_analyzer (Fin 10) (Fin 20) exact_observations (Fin 33) = Some (Fin 15) \<and>
   gridSearchDepth (Fin 10) (Fin 20) exact_observations (Fin 40) (Fin 60) (Fin 1) = Some (Fin 40)"
proof -
  have "a_ttt default_analyzer \<noteq> None"
    and "minPhaseCount (a_config default_analyzer) \<le> validCount_loop exact_observations 0"
    and "\<forall>obs \<in> set exact_observations. isValid obs \<longrightarrow> Fin 0 < weight obs"
    and "calculateMisfit (Fin 10) (Fin 20) (minDepth (a_config default_analyzer)) exact_observations
           < DBL_MAX"
    and "minDepth (a_config default_analyzer) \<in> Fin ` binary64"
    and "Fin 0 \<le> minDepth (a_config default_analyzer)"
    and "minDepth (a_config default_analyzer) \<le> maxDepth (a_config default_analyzer)"
    and "maxDepth (a_config default_analyzer) < Fin (2 ^ 52)"
    using binary64_15
    by (simp_all add: default_analyzer_def DepthPhaseConfig_default_def exact_valid exact_misfit
        DBL_MAX_def)
      (simp add: exact_observations_def pP_observation_def)
  from invertForDepth_returns_minDepth [OF this, of "Fin 33"]
  have "invertForDepth default_analyzer (Fin 10) (Fin 20) exact_observations (Fin 33)
          = Some (minDepth (a_config default_analyzer))"
    and "\<forall>lo hi s. 1 / 2 \<le> s \<and> Fin (- (2 ^ 52)) \<le> lo \<and> lo \<le> hi \<and> hi < Fin (2 ^ 52) \<longrightarrow>
            gridSearchDepth (Fin 10) (Fin 20) exact_observations lo hi (Fin s) = Some lo"
    by blast+
  from this(1) this(2) [rule_format, of 1 "Fin 40" "Fin 60"]
  show ?thesis
    by (simp add: default_analyzer_def DepthPhaseConfig_default_def exact_observations_def
        pP_observation_def)
qed

text \<open>
  C1 as stated fails on five inputs that meet its hypotheses (oracle set, at least
  \<open>minPhaseCount\<close> valid observations, each of positive weight, \<open>minDepth \<le> maxDepth\<close>).
  With \<open>minDepth = -5\<close> the first search returns \<open>-5\<close> and the check
  \<^verbatim>\<open>bestDepth < 0\<close> turns it into \<open>-1\<close>. With \<open>minPhaseCount = 0\<close> the empty list has
  enough valid observations and the result is \<open>-1\<close>, not 15. With a NaN stored
  difference in a valid observation the misfit is NaN, and with the stored difference
  \<open>2 ^ 600\<close> the square of the residual overflows and the misfit is infinite: no grid
  point is accepted and the result is \<open>-1\<close>, not 15. With an infinite \<open>maxDepth\<close> the
  first search never ends and \<open>invertForDepth\<close> does not return.
\<close>

theorem invertForDepth_not_always_minDepth:
  "a_ttt negMin_analyzer \<noteq> None \<and>
   minPhaseCount (a_config negMin_analyzer) \<le> validCount_loop exact_observations 0 \<and>
   map isValid exact_observations = [True, True, True] \<and>
   map weight exact_observations = [Fin 1, Fin 1, Fin 1] \<and>
   minDepth (a_config negMin_analyzer) = Fin (- 5) \<and>
   minDepth (a_config negMin_analyzer) \<le> maxDepth (a_config negMin_analyzer) \<and>
   invertForDepth negMin_analyzer (Fin 0) (Fin 0) exact_observations (Fin 33) = Some (Fin (- 1)) \<and>
   a_ttt noCount_analyzer \<noteq> None \<and>
   minPhaseCount (a_config noCount_analyzer) \<le> validCount_loop [] 0 \<and>
   minDepth (a_config noCount_analyzer) = Fin 15 \<and>
   minDepth (a_config noCount_analyzer) \<le> maxDepth (a_config noCount_analyzer) \<and>
   invertForDepth noCount_analyzer (Fin 0) (Fin 0) [] (Fin 33) = Some (Fin (- 1)) \<and>
   a_ttt default_analyzer \<noteq> None \<and>
   minPhaseCount (a_config default_analyzer) \<le> validCount_loop nan_observations 0 \<and>
   map isValid nan_observations = [True, True, True] \<and>
   map weight nan_observations = [Fin 1, Fin 1, Fin 1] \<and>
   minDepth (a_config default_analyzer) \<le> maxDepth (a_config default_analyzer) \<and>
   invertForDepth default_analyzer (Fin 0) (Fin 0) nan_observations (Fin 33) = Some (Fin (- 1)) \<and>
   minPhaseCount (a_config default_analyzer) \<le> validCount_loop overflow_observations 0 \<and>
   map isValid overflow_observations = [True, True, True] \<and>
   map weight overflow_observations = [Fin 1, Fin 1, Fin 1] \<and>
   map timeDifferenceObs overflow_observations = [Fin (2 ^ 600), Fin 80, Fin 80] \<and>
   invertForDepth default_analyzer (Fin 0) (Fin 0) overflow_observations (Fin 33)
     = Some (Fin (- 1)) \<and>
   a_ttt unbounded_analyzer \<noteq> None \<and>
   minPhaseCount (a_config unbounded_analyzer) \<le> validCount_loop exact_observations 0 \<and>
   minDepth (a_config unbounded_analyzer) = Fin 15 \<and>
   maxDepth (a_config unbounded_analyzer) = PInf \<and>
   minDepth (a_config unbounded_analyzer) \<le> maxDepth (a_config unbounded_analyzer) \<and>
   invertForDepth unbounded_analyzer (Fin 0) (Fin 0) exact_observations (Fin 33) = None"
proof -
  have "invertForDepth negMin_analyzer (Fin 0) (Fin 0) exact_observations (Fin 33)
          = Some (Fin (- 1))"
    by (rule invertForDepth_first_pass_fails)
      (simp_all add: negMin_analyzer_def DepthPhaseConfig_default_def)
  moreover have "invertForDepth noCount_analyzer (Fin 0) (Fin 0) [] (Fin 33) = Some (Fin (- 1))"
    by (simp add: invertForDepth_def)
  moreover have "invertForDepth default_analyzer (Fin 0) (Fin 0) nan_observations (Fin 33)
          = Some (Fin (- 1))"
    by (rule invertForDepth_first_pass_fails)
      (simp_all add: default_analyzer_def DepthPhaseConfig_default_def nan_misfit DBL_MAX_not_less)
  moreover have "invertForDepth default_analyzer (Fin 0) (Fin 0) overflow_observations (Fin 33)
          = Some (Fin (- 1))"
    by (rule invertForDepth_first_pass_fails)
      (simp_all add: default_analyzer_def DepthPhaseConfig_default_def overflow_misfit
        DBL_MAX_not_less)
  moreover have "invertForDepth unbounded_analyzer (Fin 0) (Fin 0) exact_observations (Fin 33)
          = None"
    by (simp add: invertForDepth_def unbounded_analyzer_def DepthPhaseConfig_default_def
        exact_valid gridSearchDepth_unbounded)
  moreover have "map isValid exact_observations = [True, True, True]"
    "map weight exact_observations = [Fin 1, Fin 1, Fin 1]"
    by (simp_all add: exact_observations_def pP_observation_def)
  moreover have "map isValid nan_observations = [True, True, True]"
    "map weight nan_observations = [Fin 1, Fin 1, Fin 1]"
    by (simp_all add: nan_observations_def pP_observation_def)
  moreover have "map isValid overflow_observations = [True, True, True]"
    "map weight overflow_observations = [Fin 1, Fin 1, Fin 1]"
    "map timeDifferenceObs overflow_observations = [Fin (2 ^ 600), Fin 80, Fin 80]"
    by (simp_all add: overflow_observations_def pP_observation_def)
  ultimately show ?thesis
    by (simp add: negMin_analyzer_def noCount_analyzer_def default_analyzer_def
        unbounded_analyzer_def DepthPhaseConfig_default_def exact_valid nan_valid overflow_valid)
qed

text \<open>
  C2. In scenario S4 the oracle's pP-P difference is \<open>2 * depth\<close> (80 s at 40 km),
  the three valid observations of weight 1 have observed differences 80, 82 and 78 s,
  and the depth range is 0 to 100 km. The specification expects a depth in \<open>[39.5, 40.5]\<close>;
  the code returns the minimum depth 0, since its misfit never looks at the trial depth.
\<close>

theorem invertForDepth_S4_returns_minDepth:
  "map timeDifferenceObs S4_observations = [Fin 80, Fin 82, Fin 78] \<and>
   computeDepthPhaseTimeDifference S4_analyzer ''pP'' (Fin 0) (Fin 0) (Fin 40)
     (Fin 0) (Fin 60) (Fin 0) = Fin 80 \<and>
   invertForDepth S4_analyzer (Fin 0) (Fin 0) S4_observations (Fin 33) = Some (Fin 0) \<and>
   \<not> Fin (79 / 2) \<le> Fin 0"
proof -
  obtain z where "std_sqrt (round_double (8 / 3)) = Fin z" "z \<le> 2"
    using std_sqrt_round_moderate [of "8 / 3"] by auto
  then have "calculateMisfit (Fin 0) (Fin 0) (minDepth (a_config S4_analyzer)) S4_observations
               < DBL_MAX"
    by (simp add: S4_misfit moderate_less_DBL_MAX)
  then have "invertForDepth S4_analyzer (Fin 0) (Fin 0) S4_observations (Fin 33) = Some (Fin 0)"
    using binary64_0
    by (intro invertForDepth_minDepth)
      (simp_all add: S4_analyzer_def DepthPhaseConfig_default_def S4_valid)
  moreover have "computeDepthPhaseTimeDifference S4_analyzer ''pP'' (Fin 0) (Fin 0) (Fin 40)
     (Fin 0) (Fin 60) (Fin 0) = Fin 80"
    by (simp add: computeDepthPhaseTimeDifference_def S4_analyzer_def oracle_2depth_def
        getReferencePhase_def depthPhaseTable_def c_str_def)
  ultimately show ?thesis
    by (simp add: S4_observations_def pP_observation_def)
qed




subsection \<open>Invalid observations\<close>






subsection \<open>The oracle\<close>

text \<open>
  C7. For every depth phase name and source and receiver geometry,
  \<open>computeDepthPhaseTimeDifference\<close> returns \<open>-1\<close> when no oracle is configured and
  when the oracle throws for the depth phase or for its reference phase (the function
  returns a value: the exception does not propagate); when the oracle returns both
  travel times, it returns the depth-phase time minus the reference-phase time if both
  times are positive, and \<open>-1\<close> otherwise.
\<close>

theorem computeDepthPhaseTimeDifference_cases:
  "(a_ttt a = None \<longrightarrow>
      computeDepthPhaseTimeDifference a depthPhase lat lon depth sLat sLon sElev = Fin (- 1)) \<and>
   (\<forall>ttt e. a_ttt a = Some ttt \<and>
       compute_phase ttt (c_str depthPhase) lat lon depth sLat sLon sElev = Inl e \<longrightarrow>
      computeDepthPhaseTimeDifference a depthPhase lat lon depth sLat sLon sElev = Fin (- 1)) \<and>
   (\<forall>ttt e. a_ttt a = Some ttt \<and>
       compute_phase ttt (c_str (getReferencePhase depthPhase)) lat lon depth sLat sLon sElev
         = Inl e \<longrightarrow>
      computeDepthPhaseTimeDifference a depthPhase lat lon depth sLat sLon sElev = Fin (- 1)) \<and>
   (\<forall>ttt ttDepth ttRef. a_ttt a = Some ttt \<and>
       compute_phase ttt (c_str depthPhase) lat lon depth sLat sLon sElev = Inr ttDepth \<and>
       compute_phase ttt (c_str (getReferencePhase depthPhase)) lat lon depth sLat sLon sElev
         = Inr ttRef \<longrightarrow>
      computeDepthPhaseTimeDifference a depthPhase lat lon depth sLat sLon sElev
        = (if Fin 0 < time_tt ttDepth \<and> Fin 0 < time_tt ttRef
           then time_tt ttDepth - time_tt ttRef else Fin (- 1)))"
proof (cases "a_ttt a")
  case None
  then show ?thesis
    by (simp add: computeDepthPhaseTimeDifference_def)
next
  case (Some ttt)
  show ?thesis
  proof (cases "compute_phase ttt (c_str depthPhase) lat lon depth sLat sLon sElev")
    case (Inl e)
    with Some show ?thesis
      by (simp add: computeDepthPhaseTimeDifference_def)
  next
    case depthTime: (Inr ttDepth)
    show ?thesis
    proof (cases "compute_phase ttt (c_str (getReferencePhase depthPhase))
                    lat lon depth sLat sLon sElev")
      case (Inl e)
      with Some depthTime show ?thesis
        by (simp add: computeDepthPhaseTimeDifference_def)
    next
      case (Inr ttRef)
      with Some depthTime show ?thesis
        by (simp add: computeDepthPhaseTimeDifference_def)
    qed
  qed
qed

text \<open>With the oracle of scenario S4: pP at 40 km arrives 80 s after P; the oracle
  throws for sP; a NUL ends the phase name passed to the oracle.\<close>

theorem computeDepthPhaseTimeDifference_cases_witness:
  "computeDepthPhaseTimeDifference S4_analyzer ''pP'' (Fin 0) (Fin 0) (Fin 40)
     (Fin 0) (Fin 60) (Fin 0) = Fin 80 \<and>
   computeDepthPhaseTimeDifference S4_analyzer ''sP'' (Fin 0) (Fin 0) (Fin 40)
     (Fin 0) (Fin 60) (Fin 0) = Fin (- 1) \<and>
   computeDepthPhaseTimeDifference (S4_analyzer\<lparr>a_ttt := None\<rparr>) ''pP'' (Fin 0) (Fin 0) (Fin 40)
     (Fin 0) (Fin 60) (Fin 0) = Fin (- 1)"
proof -
  let ?pP = "\<lparr>phase_tt = ''pP'', time_tt = Fin 580\<rparr>" and ?P = "\<lparr>phase_tt = ''P'', time_tt = Fin 500\<rparr>"
  have ref: "getReferencePhase ''pP'' = ''P''" "getReferencePhase ''sP'' = ''P''"
    by (simp_all add: getReferencePhase_def depthPhaseTable_def)
  have "a_ttt S4_analyzer = Some oracle_2depth \<and>
        compute_phase oracle_2depth (c_str ''pP'') (Fin 0) (Fin 0) (Fin 40) (Fin 0) (Fin 60) (Fin 0)
          = Inr ?pP \<and>
        compute_phase oracle_2depth (c_str (getReferencePhase ''pP'')) (Fin 0) (Fin 0) (Fin 40)
          (Fin 0) (Fin 60) (Fin 0) = Inr ?P"
    by (simp add: ref S4_analyzer_def oracle_2depth_def c_str_def)
  with computeDepthPhaseTimeDifference_cases
    [of S4_analyzer "''pP''" "Fin 0" "Fin 0" "Fin 40" "Fin 0" "Fin 60" "Fin 0"]
  have "computeDepthPhaseTimeDifference S4_analyzer ''pP'' (Fin 0) (Fin 0) (Fin 40)
     (Fin 0) (Fin 60) (Fin 0) = (if Fin 0 < time_tt ?pP \<and> Fin 0 < time_tt ?P
           then time_tt ?pP - time_tt ?P else Fin (- 1))"
    by blast
  then have first: "computeDepthPhaseTimeDifference S4_analyzer ''pP'' (Fin 0) (Fin 0) (Fin 40)
     (Fin 0) (Fin 60) (Fin 0) = Fin 80"
    by simp
  have "a_ttt S4_analyzer = Some oracle_2depth \<and>
        compute_phase oracle_2depth (c_str ''sP'') (Fin 0) (Fin 0) (Fin 40) (Fin 0) (Fin 60) (Fin 0)
          = Inl (Exception ''phase not found'')"
    by (simp add: S4_analyzer_def oracle_2depth_def c_str_def)
  with computeDepthPhaseTimeDifference_cases
    [of S4_analyzer "''sP''" "Fin 0" "Fin 0" "Fin 40" "Fin 0" "Fin 60" "Fin 0"]
  have second: "computeDepthPhaseTimeDifference S4_analyzer ''sP'' (Fin 0) (Fin 0) (Fin 40)
     (Fin 0) (Fin 60) (Fin 0) = Fin (- 1)"
    by blast
  have "a_ttt (S4_analyzer\<lparr>a_ttt := None\<rparr>) = None" by simp
  with computeDepthPhaseTimeDifference_cases
    [of "S4_analyzer\<lparr>a_ttt := None\<rparr>" "''pP''" "Fin 0" "Fin 0" "Fin 40" "Fin 0" "Fin 60" "Fin 0"]
  have third: "computeDepthPhaseTimeDifference (S4_analyzer\<lparr>a_ttt := None\<rparr>) ''pP''
     (Fin 0) (Fin 0) (Fin 40) (Fin 0) (Fin 60) (Fin 0) = Fin (- 1)"
    by blast
  from first second third show ?thesis by (intro conjI)
qed

text \<open>
  C10. The pointer overload \<open>setTravelTimeTable\<close> stores its argument before checking
  it: called with a null pointer it returns false and discards any oracle configured
  before, leaving the configuration as it was, and every later compute operation
  returns its not-configured sentinel: \<open>computeDepthPhaseTimes\<close> the empty list,
  \<open>computeDepthPhaseTimeDifference\<close> and \<open>invertForDepth\<close> the value \<open>-1\<close>.
\<close>

theorem setTravelTimeTable_null_uninitializes:
  "a_ttt (snd (setTravelTimeTable ttt a)) = ttt \<and>
   fst (setTravelTimeTable ttt a) = (ttt \<noteq> None) \<and>
   fst (setTravelTimeTable None a) = False \<and>
   a_ttt (snd (setTravelTimeTable None a)) = None \<and>
   a_config (snd (setTravelTimeTable None a)) = a_config a \<and>
   computeDepthPhaseTimes (snd (setTravelTimeTable None a))
     lat lon depth sLat sLon sElev phs = Inr [] \<and>
   computeDepthPhaseTimeDifference (snd (setTravelTimeTable None a))
     depthPhase lat lon depth sLat sLon sElev = Fin (- 1) \<and>
   invertForDepth (snd (setTravelTimeTable None a)) lat lon observations initialDepth
     = Some (Fin (- 1))"
  by (simp add: setTravelTimeTable_def computeDepthPhaseTimes_def
      computeDepthPhaseTimeDifference_def invertForDepth_def)

text \<open>The analyzer of scenario S4 is ready: it computes 80 s and inverts to 0 km.
  After the call with a null pointer both operations return \<open>-1\<close>.\<close>

theorem setTravelTimeTable_null_uninitializes_witness:
  "computeDepthPhaseTimeDifference S4_analyzer ''pP'' (Fin 0) (Fin 0) (Fin 40)
     (Fin 0) (Fin 60) (Fin 0) = Fin 80 \<and>
   fst (setTravelTimeTable None S4_analyzer) = False \<and>
   computeDepthPhaseTimeDifference (snd (setTravelTimeTable None S4_analyzer)) ''pP''
     (Fin 0) (Fin 0) (Fin 40) (Fin 0) (Fin 60) (Fin 0) = Fin (- 1) \<and>
   computeDepthPhaseTimes (snd (setTravelTimeTable None S4_analyzer))
     (Fin 0) (Fin 0) (Fin 40) (Fin 0) (Fin 60) (Fin 0) [] = Inr [] \<and>
   invertForDepth (snd (setTravelTimeTable None S4_analyzer)) (Fin 0) (Fin 0)
     S4_observations (Fin 33) = Some (Fin (- 1))"
proof -
  have "computeDepthPhaseTimeDifference S4_analyzer ''pP'' (Fin 0) (Fin 0) (Fin 40)
     (Fin 0) (Fin 60) (Fin 0) = Fin 80"
    by (simp add: computeDepthPhaseTimeDifference_def S4_analyzer_def oracle_2depth_def
        getReferencePhase_def depthPhaseTable_def c_str_def)
  with setTravelTimeTable_null_uninitializes [of None S4_analyzer "Fin 0" "Fin 0" "Fin 40"
      "Fin 0" "Fin 60" "Fin 0" "[]" "''pP''" S4_observations "Fin 33"]
  show ?thesis by (intro conjI) (elim conjE, assumption)+
qed

subsection \<open>The first matching region\<close>

lemma getConstraints_loop_skip:
  "\<forall>q \<in> set pre. \<not> contains q lat lon \<Longrightarrow>
   getConstraints_loop fromString lat lon (pre @ rest) result
     = getConstraints_loop fromString lat lon rest result"
  by (induction pre) simp_all

text \<open>
  C5. For every enabled lookup with retained regions (as an initialized lookup has)
  and every latitude and longitude: when a retained region contains the location and
  no region before it does, \<open>getConstraints\<close> returns that region's name with
  \<open>matched\<close> true; \<open>defaultDepth\<close> is the value that \<^verbatim>\<open>fromString\<close> reads from the
  region's attribute \<^verbatim>\<open>defaultDepth\<close>, with \<open>hasDefaultDepth\<close> true, where the attribute
  is present and parses, and the global default with the flag false otherwise;
  \<open>maxDepth\<close> and \<open>hasMaxDepth\<close> come in the same way from the attribute \<^verbatim>\<open>maxDepth\<close>.
  The regions after it have no part in the result.
\<close>

theorem getConstraints_first_match_wins:
  assumes "enabled (l_config l)"
    and "l_regions l = before @ region # after"
    and "\<forall>q \<in> set before. \<not> contains q lat lon"
    and "contains region lat lon"
  shows "getConstraints fromString l lat lon =
     \<lparr>regionName = name region,
      defaultDepth = (case attributes region ''defaultDepth'' of
                        None \<Rightarrow> globalDefaultDepth (l_config l)
                      | Some text \<Rightarrow> (case fromString text of
                                       None \<Rightarrow> globalDefaultDepth (l_config l)
                                     | Some depth \<Rightarrow> depth)),
      maxDepth_region = (case attributes region ''maxDepth'' of
                           None \<Rightarrow> globalMaxDepth (l_config l)
                         | Some text \<Rightarrow> (case fromString text of
                                          None \<Rightarrow> globalMaxDepth (l_config l)
                                        | Some depth \<Rightarrow> depth)),
      hasDefaultDepth = (case attributes region ''defaultDepth'' of
                           None \<Rightarrow> False
                         | Some text \<Rightarrow> fromString text \<noteq> None),
      hasMaxDepth = (case attributes region ''maxDepth'' of
                       None \<Rightarrow> False
                     | Some text \<Rightarrow> fromString text \<noteq> None),
      matched = True\<rparr>"
  using assms
  by (simp add: getConstraints_def getConstraints_loop_skip parseDepthAttribute_def Let_def
      split: option.splits)

text \<open>Scenario S6: the location (7, 7) is inside A and B; A is first, so the region
  is A and the maximum depth 35; A has no \<^verbatim>\<open>defaultDepth\<close>, so the global default 10
  stays. The location (12, 12) is inside B alone: both depths are those of B. The
  location (25, 25) is inside C alone: the default depth is the 33 of C, and its
  \<^verbatim>\<open>maxDepth\<close> does not parse, so the global maximum 700 stays, with the flag false.\<close>

theorem getConstraints_first_match_wins_witness:
  "contains region_A (Fin 7) (Fin 7) \<and> contains region_B (Fin 7) (Fin 7) \<and>
   l_regions S6_lookup = [region_A, region_B] \<and>
   getConstraints parse_numeral S6_lookup (Fin 7) (Fin 7) =
     \<lparr>regionName = ''A'', defaultDepth = Fin 10, maxDepth_region = Fin 35,
      hasDefaultDepth = False, hasMaxDepth = True, matched = True\<rparr> \<and>
   getConstraints parse_numeral S6_lookup (Fin 12) (Fin 12) =
     \<lparr>regionName = ''B'', defaultDepth = Fin 33, maxDepth_region = Fin 700,
      hasDefaultDepth = True, hasMaxDepth = True, matched = True\<rparr> \<and>
   l_regions ABC_lookup = [region_A, region_B, region_C] \<and>
   attributes region_C ''maxDepth'' = Some ''deep'' \<and> parse_numeral ''deep'' = None \<and>
   getConstraints parse_numeral ABC_lookup (Fin 25) (Fin 25) =
     \<lparr>regionName = ''C'', defaultDepth = Fin 33, maxDepth_region = Fin 700,
      hasDefaultDepth = True, hasMaxDepth = False, matched = True\<rparr>"
proof -
  have inside: "contains region_A (Fin 7) (Fin 7)" "contains region_B (Fin 7) (Fin 7)"
    by (simp_all add: region_A_def region_B_def inBox_def)
  have "enabled (l_config S6_lookup)" and "l_regions S6_lookup = [] @ region_A # [region_B]"
    and "\<forall>q \<in> set []. \<not> contains q (Fin 7) (Fin 7)"
    by (simp_all add: S6_lookup_def S6_config_def)
  from getConstraints_first_match_wins [OF this inside(1), of parse_numeral]
  have first: "getConstraints parse_numeral S6_lookup (Fin 7) (Fin 7) =
     \<lparr>regionName = ''A'', defaultDepth = Fin 10, maxDepth_region = Fin 35,
      hasDefaultDepth = False, hasMaxDepth = True, matched = True\<rparr>"
    by (simp add: parse_numeral_def region_A_def S6_lookup_def S6_config_def)
  have "enabled (l_config S6_lookup)" and "l_regions S6_lookup = [region_A] @ region_B # []"
    and "\<forall>q \<in> set [region_A]. \<not> contains q (Fin 12) (Fin 12)"
    and "contains region_B (Fin 12) (Fin 12)"
    by (simp_all add: S6_lookup_def S6_config_def region_A_def region_B_def inBox_def)
  from getConstraints_first_match_wins [OF this, of parse_numeral]
  have second: "getConstraints parse_numeral S6_lookup (Fin 12) (Fin 12) =
     \<lparr>regionName = ''B'', defaultDepth = Fin 33, maxDepth_region = Fin 700,
      hasDefaultDepth = True, hasMaxDepth = True, matched = True\<rparr>"
    by (simp add: parse_numeral_def region_B_def S6_lookup_def S6_config_def)
  have "enabled (l_config ABC_lookup)"
    and "l_regions ABC_lookup = [region_A, region_B] @ region_C # []"
    and "\<forall>q \<in> set [region_A, region_B]. \<not> contains q (Fin 25) (Fin 25)"
    and "contains region_C (Fin 25) (Fin 25)"
    by (simp_all add: ABC_lookup_def S6_config_def region_A_def region_B_def region_C_def
        inBox_def)
  from getConstraints_first_match_wins [OF this, of parse_numeral]
  have third: "getConstraints parse_numeral ABC_lookup (Fin 25) (Fin 25) =
     \<lparr>regionName = ''C'', defaultDepth = Fin 33, maxDepth_region = Fin 700,
      hasDefaultDepth = True, hasMaxDepth = False, matched = True\<rparr>"
    by (simp add: parse_numeral_def region_C_def ABC_lookup_def S6_config_def)
  have "l_regions S6_lookup = [region_A, region_B]"
    "l_regions ABC_lookup = [region_A, region_B, region_C]"
    "attributes region_C ''maxDepth'' = Some ''deep''" "parse_numeral ''deep'' = None"
    by (simp_all add: S6_lookup_def ABC_lookup_def region_C_def parse_numeral_def)
  with inside first second third show ?thesis
    by (intro conjI)
qed

end
